theory Spec2Isabelle
  imports Complex_Main "HOL-Library.Word"
begin

section \<open>Personal finance tracker: the domain model of \<open>src/main.cpp\<close>\<close>

text \<open>
  The program is one C++ translation unit, namespace \<open>Finance\<close>. Its classes are embedded
  as datatypes (the two class hierarchies) and records (the classes with fields), its
  member functions as functions that take the object and return the updated one.

  Number types. A C++ \<open>int\<close> is a 32-bit word, read as two's complement by \<open>sint\<close>. A C++
  \<open>double\<close> is an IEEE 754 binary64 value; its arithmetic rounds, overflows to an
  infinity and has a NaN, and is modelled below.
\<close>

type_synonym cint = "32 word"

subsection \<open>The arithmetic of \<open>double\<close>\<close>

text \<open>
  A binary64 value is a finite number, an infinity or NaN. The finite values are the
  reals \<open>n * 2^e\<close> with \<open>\<bar>n\<bar> < 2^53\<close> and \<open>- 1074 \<le> e\<close> below \<open>2^1024\<close>. The sign of a zero is
  not kept: the program never divides by a zero and never looks at the sign of one.
  Every operation rounds its exact result to the nearest value, ties to even, on its
  own: no fused multiply-add and no extended precision.
\<close>

datatype double = Finite real | PInf | NInf | NaN

text \<open>
  The binary exponent of a positive real, \<open>\<lfloor>log\<^sub>2 x\<rfloor>\<close>, by counting halvings down to
  \<open>[1, 2)\<close> or doublings up to it.
\<close>

function halvings :: "real \<Rightarrow> nat" where
  "halvings x = (if 2 \<le> x then Suc (halvings (x / 2)) else 0)"
  by pat_completeness auto
termination
proof (relation "measure (\<lambda>x. nat \<lfloor>x\<rfloor>)")
  show "wf (measure (\<lambda>x. nat \<lfloor>x\<rfloor>))" by simp
next
  fix x :: real
  assume "2 \<le> x"
  then have "\<lfloor>x / 2\<rfloor> < \<lfloor>x\<rfloor>" "0 < \<lfloor>x\<rfloor>"
    by linarith+
  then show "(x / 2, x) \<in> measure (\<lambda>x. nat \<lfloor>x\<rfloor>)"
    by simp
qed

function doublings :: "real \<Rightarrow> nat" where
  "doublings x = (if 0 < x \<and> x < 1 then Suc (doublings (2 * x)) else 0)"
  by pat_completeness auto
termination
proof (relation "measure (\<lambda>x. nat \<lceil>1 / x\<rceil>)")
  show "wf (measure (\<lambda>x. nat \<lceil>1 / x\<rceil>))" by simp
next
  fix x :: real
  assume x: "0 < x \<and> x < 1"
  define y where "y = 1 / x"
  from x have y: "1 < y" by (simp add: y_def)
  then have "2 \<le> \<lceil>y\<rceil>" by linarith
  then have "2 \<le> (of_int \<lceil>y\<rceil> :: real)" by linarith
  moreover have "y \<le> of_int \<lceil>y\<rceil>" by simp
  ultimately have "y / 2 \<le> of_int \<lceil>y\<rceil> - 1" by linarith
  then have "\<lceil>y / 2\<rceil> < \<lceil>y\<rceil>"
    by (simp add: ceiling_less_iff)
  moreover from y have "0 < \<lceil>y\<rceil>" by linarith
  moreover have "1 / (2 * x) = y / 2" by (simp add: y_def)
  ultimately show "(2 * x, x) \<in> measure (\<lambda>x. nat \<lceil>1 / x\<rceil>)"
    by (simp add: y_def mult.commute)
qed

declare halvings.simps [simp del] doublings.simps [simp del]

definition ilog2 :: "real \<Rightarrow> int" where
  "ilog2 x = (if 1 \<le> x then int (halvings x) else - int (doublings x))"

text \<open>Rounding to the nearest integer, a tie going to the even one.\<close>

definition round_half_even :: "real \<Rightarrow> int" where
  "round_half_even r =
     (let f = \<lfloor>r\<rfloor>; d = r - of_int f
      in if d < 1 / 2 then f else if 1 / 2 < d then f + 1 else if even f then f else f + 1)"

text \<open>
  Rounding a real to binary64, to nearest with ties to even. \<open>quantum x\<close> is the spacing
  of the doubles around \<open>x\<close>: 53 significant bits, and never finer than \<open>2^-1074\<close>
  (gradual underflow). \<open>nearest x\<close> is the multiple of it nearest to \<open>x\<close>, and the result
  is an infinity when that reaches \<open>2^1024\<close>.
\<close>

definition quantum :: "real \<Rightarrow> real" where
  "quantum x = 2 powi (max (ilog2 \<bar>x\<bar>) (- 1022) - 52)"

definition nearest :: "real \<Rightarrow> real" where
  "nearest x = of_int (round_half_even (x / quantum x)) * quantum x"

definition round64 :: "real \<Rightarrow> double" where
  "round64 x =
     (if 2 ^ 1024 \<le> \<bar>nearest x\<bar> then (if 0 < x then PInf else NInf) else Finite (nearest x))"

fun fneg :: "double \<Rightarrow> double" where
  "fneg (Finite x) = Finite (- x)"
| "fneg PInf = NInf"
| "fneg NInf = PInf"
| "fneg NaN = NaN"

fun fadd :: "double \<Rightarrow> double \<Rightarrow> double" where
  "fadd NaN y = NaN"
| "fadd x NaN = NaN"
| "fadd PInf NInf = NaN"
| "fadd NInf PInf = NaN"
| "fadd PInf y = PInf"
| "fadd NInf y = NInf"
| "fadd x PInf = PInf"
| "fadd x NInf = NInf"
| "fadd (Finite x) (Finite y) = round64 (x + y)"

definition fsub :: "double \<Rightarrow> double \<Rightarrow> double" where
  "fsub x y = fadd x (fneg y)"

text \<open>The sign that a product or a quotient with an infinity takes from a finite factor.\<close>

definition signed_inf :: "bool \<Rightarrow> double" where
  "signed_inf positive = (if positive then PInf else NInf)"

fun fmul :: "double \<Rightarrow> double \<Rightarrow> double" where
  "fmul NaN y = NaN"
| "fmul x NaN = NaN"
| "fmul PInf PInf = PInf"
| "fmul PInf NInf = NInf"
| "fmul NInf PInf = NInf"
| "fmul NInf NInf = PInf"
| "fmul PInf (Finite y) = (if y = 0 then NaN else signed_inf (0 < y))"
| "fmul NInf (Finite y) = (if y = 0 then NaN else signed_inf (y < 0))"
| "fmul (Finite x) PInf = (if x = 0 then NaN else signed_inf (0 < x))"
| "fmul (Finite x) NInf = (if x = 0 then NaN else signed_inf (x < 0))"
| "fmul (Finite x) (Finite y) = round64 (x * y)"

fun fdiv :: "double \<Rightarrow> double \<Rightarrow> double" where
  "fdiv NaN y = NaN"
| "fdiv x NaN = NaN"
| "fdiv PInf PInf = NaN"
| "fdiv PInf NInf = NaN"
| "fdiv NInf PInf = NaN"
| "fdiv NInf NInf = NaN"
| "fdiv PInf (Finite y) = signed_inf (0 \<le> y)"
| "fdiv NInf (Finite y) = signed_inf (y < 0)"
| "fdiv (Finite x) PInf = Finite 0"
| "fdiv (Finite x) NInf = Finite 0"
| "fdiv (Finite x) (Finite y) =
     (if y = 0 then (if x = 0 then NaN else signed_inf (0 < x)) else round64 (x / y))"

fun flt :: "double \<Rightarrow> double \<Rightarrow> bool" where
  "flt NaN y = False"
| "flt x NaN = False"
| "flt PInf y = False"
| "flt x NInf = False"
| "flt NInf y = True"
| "flt x PInf = True"
| "flt (Finite x) (Finite y) = (x < y)"

fun fle :: "double \<Rightarrow> double \<Rightarrow> bool" where
  "fle NaN y = False"
| "fle x NaN = False"
| "fle NInf y = True"
| "fle x PInf = True"
| "fle PInf y = False"
| "fle x NInf = False"
| "fle (Finite x) (Finite y) = (x \<le> y)"

text \<open>
  \<open>std::pow\<close> is only ever called with an \<open>int\<close> as its exponent (converted to \<open>double\<close>
  without loss by the overload), so it is modelled at integer exponents. The C library
  does not promise its last bit. \<open>pow\<close> below is the correctly rounded power; the
  statements whose value depends on a power quantify over the function instead.
\<close>

fun pow :: "double \<Rightarrow> int \<Rightarrow> double" where
  "pow NaN n = (if n = 0 then Finite 1 else NaN)"
| "pow PInf n = (if n = 0 then Finite 1 else if 0 < n then PInf else Finite 0)"
| "pow NInf n =
     (if n = 0 then Finite 1 else if n < 0 then Finite 0 else if even n then PInf else NInf)"
| "pow (Finite x) n =
     (if n = 0 then Finite 1 else if x = 0 \<and> n < 0 then PInf else round64 (x powi n))"

text \<open>
  The program is written once, over the operations it uses on \<open>double\<close>: the conversion
  of a literal or an \<open>int\<close>, the four operations, the two comparisons and \<open>std::pow\<close>.
  \<open>binary64\<close> is what the machine does, with the library's \<open>pow\<close> as its parameter.
  \<open>exact\<close> is the arithmetic of the real numbers, which rounds nothing: what decimal
  amounts worked out on paper obey.
\<close>

record 'a arith =
  dlit :: "real \<Rightarrow> 'a"
  dadd :: "'a \<Rightarrow> 'a \<Rightarrow> 'a"
  dsub :: "'a \<Rightarrow> 'a \<Rightarrow> 'a"
  dmul :: "'a \<Rightarrow> 'a \<Rightarrow> 'a"
  ddiv :: "'a \<Rightarrow> 'a \<Rightarrow> 'a"
  dless :: "'a \<Rightarrow> 'a \<Rightarrow> bool"
  dleq :: "'a \<Rightarrow> 'a \<Rightarrow> bool"
  dpow :: "'a \<Rightarrow> int \<Rightarrow> 'a"

definition binary64 :: "(double \<Rightarrow> int \<Rightarrow> double) \<Rightarrow> double arith" where
  "binary64 libm_pow =
     \<lparr>dlit = round64, dadd = fadd, dsub = fsub, dmul = fmul, ddiv = fdiv,
      dless = flt, dleq = fle, dpow = libm_pow\<rparr>"

definition exact :: "real arith" where
  "exact =
     \<lparr>dlit = (\<lambda>x. x), dadd = (+), dsub = (-), dmul = (*), ddiv = (/),
      dless = (<), dleq = (\<le>), dpow = (powi)\<rparr>"

subsection \<open>Transactions\<close>

text \<open>
  \<open>class Transaction\<close> holds \<open>amount\<close> and \<open>description\<close>; its subclasses \<open>Income\<close> and
  \<open>Expenditure\<close> add nothing but the label returned by \<open>getType\<close>. The type parameter is
  the type of the amounts.
\<close>

datatype 'a Transaction = Income 'a string | Expenditure 'a string

fun getAmount :: "'a Transaction \<Rightarrow> 'a" where
  "getAmount (Income amt des) = amt"
| "getAmount (Expenditure amt des) = amt"

fun description :: "'a Transaction \<Rightarrow> string" where
  "description (Income amt des) = des"
| "description (Expenditure amt des) = des"

fun getType :: "'a Transaction \<Rightarrow> string" where
  "getType (Income amt des) = ''Income''"
| "getType (Expenditure amt des) = ''Expenditure''"

subsection \<open>Investments\<close>

text \<open>
  \<open>class Investment\<close> holds \<open>principal\<close> and \<open>durationYears\<close>; \<open>SIP\<close> adds
  \<open>monthlyInvestment\<close>. The constructor arguments are in the source's order.
\<close>

datatype 'a Investment = SIP 'a cint 'a | FD 'a cint

fun getPrincipal :: "'a Investment \<Rightarrow> 'a" where
  "getPrincipal (SIP principalAmt dur monthlyAmt) = principalAmt"
| "getPrincipal (FD amt dur) = amt"

fun durationYears :: "'a Investment \<Rightarrow> cint" where
  "durationYears (SIP principalAmt dur monthlyAmt) = dur"
| "durationYears (FD amt dur) = dur"

fun getType_inv :: "'a Investment \<Rightarrow> string" where
  "getType_inv (SIP principalAmt dur monthlyAmt) = ''SIP''"
| "getType_inv (FD amt dur) = ''Fixed Deposit''"

definition SIP_ANNUAL_RATE :: "'a arith \<Rightarrow> 'a" where
  "SIP_ANNUAL_RATE A = dlit A 0.096"

definition FD_ANNUAL_RATE :: "'a arith \<Rightarrow> 'a" where
  "FD_ANNUAL_RATE A = dlit A 0.071"

text \<open>
  \<open>getMaturityAmount\<close>. In \<open>SIP\<close> the exponent is the \<open>int\<close> product \<open>durationYears * 12\<close>,
  computed in 32 bits before the conversion: the word product below wraps around, which
  is what the usual targets do where the C++ standard leaves signed overflow undefined.
  The \<open>int\<close> constants 1 and 12 are converted to \<open>double\<close> where they meet one.
\<close>

fun getMaturityAmount :: "'a arith \<Rightarrow> 'a Investment \<Rightarrow> 'a" where
  "getMaturityAmount A (SIP principalAmt dur monthlyInvestment) =
     (let finalAmount =
            dmul A principalAmt
              (dpow A (dadd A (dlit A 1) (ddiv A (SIP_ANNUAL_RATE A) (dlit A 12)))
                 (sint (dur * 12)));
          monthlyContributionFutureValue =
            dmul A monthlyInvestment
              (ddiv A
                 (dsub A
                    (dpow A (dadd A (dlit A 1) (ddiv A (SIP_ANNUAL_RATE A) (dlit A 12)))
                       (sint (dur * 12)))
                    (dlit A 1))
                 (ddiv A (SIP_ANNUAL_RATE A) (dlit A 12)))
      in dadd A finalAmount monthlyContributionFutureValue)"
| "getMaturityAmount A (FD principalAmt dur) =
     dmul A principalAmt (dpow A (dadd A (dlit A 1) (FD_ANNUAL_RATE A)) (sint dur))"

subsection \<open>Console\<close>

text \<open>
  Standard input is a list of newline-terminated lines. What \<open>std::cin >> value\<close> makes of
  a line is the business of the stream library, not of this program, so a line carries
  the outcome of each extraction with it: \<open>parse_int\<close> is the \<open>int\<close> that is read when the
  extraction leaves the stream good (\<open>None\<close> when it does not), \<open>parse_double\<close> the same for
  \<open>double\<close>, and \<open>line_text\<close> is what \<open>std::getline\<close> returns.

  Standard output is the list of the result messages and reports written so far. The
  menu text, the prompts and the retry message of \<open>getNumericInput\<close> are left out, and a
  report is kept as its rows rather than as formatted text.
\<close>

record 'a line =
  line_text :: string
  parse_int :: "cint option"
  parse_double :: "'a option"

datatype 'a message =
    Welcome
  | Goodbye
  | InvalidOption
  | IncomeRecorded
  | TransactionDeclined 'a
  | ExpenditureRecorded
  | InvestmentFailed 'a
  | SIPMade
  | FDMade
  | InvalidInvestmentType
  | TransactionHistory "(string \<times> 'a \<times> string) list"
  | InvestmentPortfolio "(string \<times> 'a \<times> cint \<times> 'a option) list"
  | InvestmentProjections "(nat \<times> string \<times> 'a) list"

text \<open>
  \<open>getNumericInput<T>\<close> loops until an extraction succeeds; a line that fails is
  discarded. At the end of the input every further extraction fails, so the loop never
  returns: that is the value \<open>None\<close>. The template parameter is the extraction to use.
\<close>

fun getNumericInput :: "('l \<Rightarrow> 'v option) \<Rightarrow> 'l list \<Rightarrow> ('v \<times> 'l list) option" where
  "getNumericInput parse [] = None"
| "getNumericInput parse (l # ls) =
     (case parse l of
        Some v \<Rightarrow> Some (v, ls)
      | None \<Rightarrow> getNumericInput parse ls)"

text \<open>\<open>getStringInput\<close> reads one line; at the end of the input it returns the empty string.\<close>

fun getStringInput :: "'a line list \<Rightarrow> string \<times> 'a line list" where
  "getStringInput [] = ([], [])"
| "getStringInput (l # ls) = (line_text l, ls)"

subsection \<open>FinanceManager\<close>

record 'a FinanceManager =
  transactions :: "'a Transaction list"
  investments :: "'a Investment list"

definition FinanceManager_init :: "'a FinanceManager" where
  "FinanceManager_init = \<lparr>transactions = [], investments = []\<rparr>"

definition addTransaction :: "'a Transaction \<Rightarrow> 'a FinanceManager \<Rightarrow> 'a FinanceManager" where
  "addTransaction t m = m\<lparr>transactions := transactions m @ [t]\<rparr>"

definition addInvestment :: "'a Investment \<Rightarrow> 'a FinanceManager \<Rightarrow> 'a FinanceManager" where
  "addInvestment i m = m\<lparr>investments := investments m @ [i]\<rparr>"

definition getTransactions :: "'a FinanceManager \<Rightarrow> 'a Transaction list" where
  "getTransactions m = transactions m"

definition getInvestments :: "'a FinanceManager \<Rightarrow> 'a Investment list" where
  "getInvestments m = investments m"

text \<open>The rows that \<open>Transaction::display\<close> and the two \<open>Investment::display\<close> overrides print.\<close>

definition display :: "'a Transaction \<Rightarrow> string \<times> 'a \<times> string" where
  "display t = (getType t, getAmount t, description t)"

fun display_inv :: "'a Investment \<Rightarrow> string \<times> 'a \<times> cint \<times> 'a option" where
  "display_inv (SIP principalAmt dur monthlyAmt) =
     (getType_inv (SIP principalAmt dur monthlyAmt), principalAmt, dur, Some monthlyAmt)"
| "display_inv (FD amt dur) = (getType_inv (FD amt dur), amt, dur, None)"

definition displayTransactionHistory :: "'a FinanceManager \<Rightarrow> 'a message" where
  "displayTransactionHistory m = TransactionHistory (map display (transactions m))"

definition displayInvestmentPortfolio :: "'a FinanceManager \<Rightarrow> 'a message" where
  "displayInvestmentPortfolio m = InvestmentPortfolio (map display_inv (investments m))"

definition displayInvestmentProjections :: "'a arith \<Rightarrow> 'a FinanceManager \<Rightarrow> 'a message" where
  "displayInvestmentProjections A m =
     InvestmentProjections
       (map (\<lambda>(i, inv). (i + 1, getType_inv inv, getMaturityAmount A inv))
            (enumerate 0 (investments m)))"

subsection \<open>User\<close>

record 'a User =
  manager :: "'a FinanceManager"
  balance :: 'a

definition MINIMUM_BALANCE :: "'a arith \<Rightarrow> 'a" where
  "MINIMUM_BALANCE A = dlit A 1000.0"

definition User_init :: "'a \<Rightarrow> 'a User" where
  "User_init initialBalance = \<lparr>manager = FinanceManager_init, balance = initialBalance\<rparr>"

text \<open>
  A member function of \<open>User\<close> reads the console and changes the object; its model maps
  the three of them, a \<open>world\<close>, to the next one. The result is \<open>None\<close> when the function
  does not return, which happens only inside \<open>getNumericInput\<close> at the end of the input.
\<close>

record 'a world =
  usr :: "'a User"
  stdin :: "'a line list"
  stdout :: "'a message list"

definition recordIncome :: "'a arith \<Rightarrow> 'a world \<Rightarrow> 'a world option" where
  "recordIncome A w =
     (case getNumericInput parse_double (stdin w) of
        None \<Rightarrow> None
      | Some (amt, in1) \<Rightarrow>
          (case getStringInput in1 of
             (desc, in2) \<Rightarrow>
               Some \<lparr>usr = (usr w)\<lparr>manager := addTransaction (Income amt desc) (manager (usr w)),
                                   balance := dadd A (balance (usr w)) amt\<rparr>,
                     stdin = in2,
                     stdout = stdout w @ [IncomeRecorded]\<rparr>))"

definition recordExpenditure :: "'a arith \<Rightarrow> 'a world \<Rightarrow> 'a world option" where
  "recordExpenditure A w =
     (case getNumericInput parse_double (stdin w) of
        None \<Rightarrow> None
      | Some (amt, in1) \<Rightarrow>
          if dless A (dsub A (balance (usr w)) amt) (MINIMUM_BALANCE A)
          then Some \<lparr>usr = usr w, stdin = in1,
                     stdout = stdout w @ [TransactionDeclined (MINIMUM_BALANCE A)]\<rparr>
          else
            (case getStringInput in1 of
               (desc, in2) \<Rightarrow>
                 Some \<lparr>usr = (usr w)\<lparr>manager := addTransaction (Expenditure amt desc) (manager (usr w)),
                                     balance := dsub A (balance (usr w)) amt\<rparr>,
                       stdin = in2,
                       stdout = stdout w @ [ExpenditureRecorded]\<rparr>))"

definition makeInvestment :: "'a arith \<Rightarrow> 'a world \<Rightarrow> 'a world option" where
  "makeInvestment A w =
     (case getNumericInput parse_int (stdin w) of
        None \<Rightarrow> None
      | Some (choice, in1) \<Rightarrow>
          if choice = 0 then Some \<lparr>usr = usr w, stdin = in1, stdout = stdout w\<rparr>
          else
            (case getNumericInput parse_double in1 of
               None \<Rightarrow> None
             | Some (principalAmt, in2) \<Rightarrow>
                 if dless A (dsub A (balance (usr w)) principalAmt) (MINIMUM_BALANCE A)
                 then Some \<lparr>usr = usr w, stdin = in2,
                            stdout = stdout w @ [InvestmentFailed (MINIMUM_BALANCE A)]\<rparr>
                 else
                   (case getNumericInput parse_int in2 of
                      None \<Rightarrow> None
                    | Some (duration, in3) \<Rightarrow>
                        if choice = 1 then
                          (case getNumericInput parse_double in3 of
                             None \<Rightarrow> None
                           | Some (monthly, in4) \<Rightarrow>
                               Some \<lparr>usr = (usr w)\<lparr>manager := addInvestment (SIP principalAmt duration monthly)
                                                                 (manager (usr w)),
                                                   balance := dsub A (balance (usr w)) principalAmt\<rparr>,
                                     stdin = in4,
                                     stdout = stdout w @ [SIPMade]\<rparr>)
                        else if choice = 2 then
                          Some \<lparr>usr = (usr w)\<lparr>manager := addInvestment (FD principalAmt duration)
                                                            (manager (usr w)),
                                              balance := dsub A (balance (usr w)) principalAmt\<rparr>,
                                stdin = in3,
                                stdout = stdout w @ [FDMade]\<rparr>
                        else
                          Some \<lparr>usr = usr w, stdin = in3,
                                stdout = stdout w @ [InvalidInvestmentType]\<rparr>)))"

text \<open>The \<open>switch\<close> of \<open>User::run\<close>, on the choice that the loop body has just read.\<close>

definition menu_switch :: "'a arith \<Rightarrow> cint \<Rightarrow> 'a world \<Rightarrow> 'a world option" where
  "menu_switch A choice w =
     (if choice = 1 then recordIncome A w
      else if choice = 2 then recordExpenditure A w
      else if choice = 3 then makeInvestment A w
      else if choice = 4 then Some (w\<lparr>stdout := stdout w @ [displayTransactionHistory (manager (usr w))]\<rparr>)
      else if choice = 5 then Some (w\<lparr>stdout := stdout w @ [displayInvestmentPortfolio (manager (usr w))]\<rparr>)
      else if choice = 6 then
        Some (w\<lparr>stdout := stdout w @ [displayInvestmentProjections A (manager (usr w))]\<rparr>)
      else if choice = 0 then Some (w\<lparr>stdout := stdout w @ [Goodbye]\<rparr>)
      else Some (w\<lparr>stdout := stdout w @ [InvalidOption]\<rparr>))"

text \<open>
  \<open>User::run\<close>: \<open>while (choice != 0)\<close> around reading the choice and the \<open>switch\<close>. Every
  pass consumes at least the line of the choice, so the recursion ends with the input;
  an input that runs out before a choice of 0 leaves the program in \<open>getNumericInput\<close>
  for ever, and the result is \<open>None\<close>.
\<close>

function while_loop :: "'a arith \<Rightarrow> cint \<Rightarrow> 'a world \<Rightarrow> 'a world option" where
  "while_loop A choice w =
     (if choice \<noteq> 0 then
        (case getNumericInput parse_int (stdin w) of
           None \<Rightarrow> None
         | Some (choice', in1) \<Rightarrow>
             (case menu_switch A choice' (w\<lparr>stdin := in1\<rparr>) of
                None \<Rightarrow> None
              | Some w' \<Rightarrow> while_loop A choice' w'))
      else Some w)"
  by pat_completeness auto
termination
proof (relation "measure (\<lambda>(A, choice, w). length (stdin w))")
  show "wf (measure (\<lambda>(A, choice, w). length (stdin w)))"
    by simp
next
  fix A :: "'a arith" and choice :: cint and w :: "'a world" and x2 choice' in1 w'
  assume rd: "getNumericInput parse_int (stdin w) = Some x2" "(choice', in1) = x2"
    and sw: "menu_switch A choice' (w\<lparr>stdin := in1\<rparr>) = Some w'"
  have num_int: "length r < length ls"
    if "getNumericInput parse_int ls = Some (v, r)" for ls :: "'a line list" and v r
    using that by (induction ls) (auto split: option.splits)
  have num_double: "length r < length ls"
    if "getNumericInput parse_double ls = Some (v, r)" for ls :: "'a line list" and v r
    using that by (induction ls) (auto split: option.splits)
  have str: "length r \<le> length ls" if "getStringInput ls = (d, r)" for ls :: "'a line list" and d r
    using that by (cases ls) auto
  have inc: "length (stdin v') \<le> length (stdin v)" if "recordIncome A v = Some v'" for v v'
  proof -
    from that obtain amt in1 desc in2 where
      "getNumericInput parse_double (stdin v) = Some (amt, in1)"
      "getStringInput in1 = (desc, in2)" "stdin v' = in2"
      unfolding recordIncome_def by (auto split: option.splits prod.splits)
    with num_double str show ?thesis by fastforce
  qed
  have exp: "length (stdin v') \<le> length (stdin v)" if "recordExpenditure A v = Some v'" for v v'
  proof -
    from that obtain amt in1 where rd1: "getNumericInput parse_double (stdin v) = Some (amt, in1)"
      and "stdin v' = in1 \<or> stdin v' = snd (getStringInput in1)"
      unfolding recordExpenditure_def by (auto split: option.splits prod.splits if_splits)
    moreover have "length (snd (getStringInput in1)) \<le> length in1"
      using str [of in1] by (cases "getStringInput in1") simp
    ultimately show ?thesis using num_double [OF rd1] by auto
  qed
  have inv: "length (stdin v') \<le> length (stdin v)" if mk: "makeInvestment A v = Some v'" for v v'
  proof -
    from mk obtain c in1 where rd1: "getNumericInput parse_int (stdin v) = Some (c, in1)"
      unfolding makeInvestment_def by (auto split: option.splits)
    show ?thesis
    proof (cases "c = 0")
      case True
      with mk rd1 have "stdin v' = in1"
        unfolding makeInvestment_def by auto
      with num_int [OF rd1] show ?thesis by simp
    next
      case False
      with mk rd1 obtain p in2 where rd2: "getNumericInput parse_double in1 = Some (p, in2)"
        unfolding makeInvestment_def by (auto split: option.splits)
      show ?thesis
      proof (cases "dless A (dsub A (balance (usr v)) p) (MINIMUM_BALANCE A)")
        case True
        with mk rd1 rd2 False have "stdin v' = in2"
          unfolding makeInvestment_def by auto
        with num_int [OF rd1] num_double [OF rd2] show ?thesis by simp
      next
        case guard: False
        with mk rd1 rd2 False obtain d in3 where rd3: "getNumericInput parse_int in2 = Some (d, in3)"
          unfolding makeInvestment_def by (auto split: option.splits)
        have "length (stdin v') \<le> length in3"
        proof (cases "c = 1")
          case True
          with mk rd1 rd2 rd3 guard obtain m in4 where
            rd4: "getNumericInput parse_double in3 = Some (m, in4)" and "stdin v' = in4"
            unfolding makeInvestment_def by (auto split: option.splits)
          with num_double [OF rd4] show ?thesis by simp
        next
          case c1: False
          with mk rd1 rd2 rd3 guard False have "stdin v' = in3"
            unfolding makeInvestment_def by (auto split: if_splits)
          then show ?thesis by simp
        qed
        with num_int [OF rd1] num_double [OF rd2] num_int [OF rd3] show ?thesis by simp
      qed
    qed
  qed
  have "length (stdin w') \<le> length in1"
    using sw inc [of "w\<lparr>stdin := in1\<rparr>" w'] exp [of "w\<lparr>stdin := in1\<rparr>" w']
      inv [of "w\<lparr>stdin := in1\<rparr>" w']
    unfolding menu_switch_def by (auto split: if_splits)
  moreover have "length in1 < length (stdin w)"
    using rd num_int by metis
  ultimately show "((A, choice', w'), (A, choice, w)) \<in> measure (\<lambda>(A, choice, w). length (stdin w))"
    by simp
qed

definition run :: "'a arith \<Rightarrow> 'a world \<Rightarrow> 'a world option" where
  "run A w = while_loop A (- 1) w"

text \<open>\<open>main\<close> prints the welcome line, runs a user with 5000 and returns 0.\<close>

definition main :: "'a arith \<Rightarrow> 'a line list \<Rightarrow> (int \<times> 'a world) option" where
  "main A input =
     (let initialBalance = dlit A 5000.0;
          user = User_init initialBalance
      in case run A \<lparr>usr = user, stdin = input, stdout = [Welcome]\<rparr> of
           None \<Rightarrow> None
         | Some w \<Rightarrow> Some (0, w))"

subsection \<open>Vocabulary of the properties\<close>

text \<open>
  A client of \<open>FinanceManager\<close> can only add: a sequence of calls of \<open>addTransaction\<close> and
  \<open>addInvestment\<close>, in any interleaving, is a list of \<open>ledger_op\<close>, applied from left to
  right.
\<close>

datatype 'a ledger_op = AddTransaction "'a Transaction" | AddInvestment "'a Investment"

fun apply_op :: "'a ledger_op \<Rightarrow> 'a FinanceManager \<Rightarrow> 'a FinanceManager" where
  "apply_op (AddTransaction t) m = addTransaction t m"
| "apply_op (AddInvestment i) m = addInvestment i m"

fun apply_ops :: "'a ledger_op list \<Rightarrow> 'a FinanceManager \<Rightarrow> 'a FinanceManager" where
  "apply_ops [] m = m"
| "apply_ops (x # xs) m = apply_ops xs (apply_op x m)"

fun added_transactions :: "'a ledger_op list \<Rightarrow> 'a Transaction list" where
  "added_transactions [] = []"
| "added_transactions (AddTransaction t # xs) = t # added_transactions xs"
| "added_transactions (AddInvestment i # xs) = added_transactions xs"

fun added_investments :: "'a ledger_op list \<Rightarrow> 'a Investment list" where
  "added_investments [] = []"
| "added_investments (AddTransaction t # xs) = added_investments xs"
| "added_investments (AddInvestment i # xs) = i # added_investments xs"

text \<open>
  One execution of the body of the loop of \<open>User::run\<close>: read the choice, run the
  \<open>switch\<close> on it; the result is the choice read and the state left. \<open>passes A n w\<close> is
  the outcome of the pass number \<open>n + 1\<close> from \<open>w\<close> when none of the \<open>n\<close> passes before it
  has read 0, which is when the loop condition \<open>choice != 0\<close> lets it happen.
\<close>

definition pass :: "'a arith \<Rightarrow> 'a world \<Rightarrow> (cint \<times> 'a world) option" where
  "pass A w =
     (case getNumericInput parse_int (stdin w) of
        None \<Rightarrow> None
      | Some (choice, in1) \<Rightarrow>
          (case menu_switch A choice (w\<lparr>stdin := in1\<rparr>) of
             None \<Rightarrow> None
           | Some w' \<Rightarrow> Some (choice, w')))"

fun passes :: "'a arith \<Rightarrow> nat \<Rightarrow> 'a world \<Rightarrow> (cint \<times> 'a world) option" where
  "passes A 0 w = pass A w"
| "passes A (Suc n) w =
     (case pass A w of
        None \<Rightarrow> None
      | Some (choice, w') \<Rightarrow> if choice = 0 then None else passes A n w')"

text \<open>
  The sign conditions on stored records: a transaction with a non-negative amount, an
  investment with a non-negative principal and a non-negative duration, and a ledger
  all of whose records are so. \<open>0 \<le> x\<close> is the comparison of the arithmetic.
\<close>

definition Transaction_nonneg :: "'a arith \<Rightarrow> 'a Transaction \<Rightarrow> bool" where
  "Transaction_nonneg A t = dleq A (dlit A 0) (getAmount t)"

definition Investment_nonneg :: "'a arith \<Rightarrow> 'a Investment \<Rightarrow> bool" where
  "Investment_nonneg A i = (dleq A (dlit A 0) (getPrincipal i) \<and> 0 \<le> sint (durationYears i))"

definition ledger_nonneg :: "'a arith \<Rightarrow> 'a FinanceManager \<Rightarrow> bool" where
  "ledger_nonneg A m =
     (list_all (Transaction_nonneg A) (transactions m) \<and>
      list_all (Investment_nonneg A) (investments m))"

text \<open>A line on which no extraction yields a negative number.\<close>

definition line_nonneg :: "'a arith \<Rightarrow> 'a line \<Rightarrow> bool" where
  "line_nonneg A l =
     ((case parse_double l of None \<Rightarrow> True | Some v \<Rightarrow> dleq A (dlit A 0) v) \<and>
      (case parse_int l of None \<Rightarrow> True | Some n \<Rightarrow> 0 \<le> sint n))"

text \<open>
  Three kinds of line for concrete inputs: a line holding the decimal numeral of an
  integer, which both extractions read; a line holding a decimal fraction, of which the
  \<open>int\<close> extraction reads the integer part and the \<open>double\<close> extraction the nearest
  \<open>double\<close>; and a line of text that neither reads.
\<close>

definition number_line :: "'a arith \<Rightarrow> string \<Rightarrow> int \<Rightarrow> 'a line" where
  "number_line A s n =
     \<lparr>line_text = s, parse_int = Some (word_of_int n), parse_double = Some (dlit A (of_int n))\<rparr>"

definition decimal_line :: "'a arith \<Rightarrow> string \<Rightarrow> int \<Rightarrow> real \<Rightarrow> 'a line" where
  "decimal_line A s n x =
     \<lparr>line_text = s, parse_int = Some (word_of_int n), parse_double = Some (dlit A x)\<rparr>"

definition text_line :: "string \<Rightarrow> 'a line" where
  "text_line s = \<lparr>line_text = s, parse_int = None, parse_double = None\<rparr>"

section \<open>Properties\<close>

subsection \<open>What each operation does, once its input is read\<close>

lemma recordIncome_reads:
  assumes "getNumericInput parse_double (stdin w) = Some (a, in1)"
  shows "recordIncome A w =
           Some \<lparr>usr = \<lparr>manager = \<lparr>transactions = transactions (manager (usr w)) @
                                            [Income a (fst (getStringInput in1))],
                                      investments = investments (manager (usr w))\<rparr>,
                         balance = dadd A (balance (usr w)) a\<rparr>,
                 stdin = snd (getStringInput in1),
                 stdout = stdout w @ [IncomeRecorded]\<rparr>"
  using assms by (simp add: recordIncome_def addTransaction_def split: prod.splits)

lemma recordExpenditure_declined:
  assumes "getNumericInput parse_double (stdin w) = Some (a, in1)"
    and "dless A (dsub A (balance (usr w)) a) (MINIMUM_BALANCE A)"
  shows "recordExpenditure A w =
           Some \<lparr>usr = usr w, stdin = in1, stdout = stdout w @ [TransactionDeclined (MINIMUM_BALANCE A)]\<rparr>"
  using assms by (simp add: recordExpenditure_def)

lemma recordExpenditure_recorded:
  assumes "getNumericInput parse_double (stdin w) = Some (a, in1)"
    and "\<not> dless A (dsub A (balance (usr w)) a) (MINIMUM_BALANCE A)"
  shows "recordExpenditure A w =
           Some \<lparr>usr = \<lparr>manager = \<lparr>transactions = transactions (manager (usr w)) @
                                            [Expenditure a (fst (getStringInput in1))],
                                      investments = investments (manager (usr w))\<rparr>,
                         balance = dsub A (balance (usr w)) a\<rparr>,
                 stdin = snd (getStringInput in1),
                 stdout = stdout w @ [ExpenditureRecorded]\<rparr>"
  using assms by (simp add: recordExpenditure_def addTransaction_def split: prod.splits)

lemma makeInvestment_cancel:
  assumes "getNumericInput parse_int (stdin w) = Some (0, in1)"
  shows "makeInvestment A w = Some \<lparr>usr = usr w, stdin = in1, stdout = stdout w\<rparr>"
  using assms by (simp add: makeInvestment_def)

lemma makeInvestment_failed:
  assumes "getNumericInput parse_int (stdin w) = Some (c, in1)" and "c \<noteq> 0"
    and "getNumericInput parse_double in1 = Some (a, in2)"
    and "dless A (dsub A (balance (usr w)) a) (MINIMUM_BALANCE A)"
  shows "makeInvestment A w =
           Some \<lparr>usr = usr w, stdin = in2, stdout = stdout w @ [InvestmentFailed (MINIMUM_BALANCE A)]\<rparr>"
  using assms by (simp add: makeInvestment_def)

lemma makeInvestment_SIP:
  assumes "getNumericInput parse_int (stdin w) = Some (1, in1)"
    and "getNumericInput parse_double in1 = Some (a, in2)"
    and "\<not> dless A (dsub A (balance (usr w)) a) (MINIMUM_BALANCE A)"
    and "getNumericInput parse_int in2 = Some (d, in3)"
    and "getNumericInput parse_double in3 = Some (mo, in4)"
  shows "makeInvestment A w =
           Some \<lparr>usr = \<lparr>manager = \<lparr>transactions = transactions (manager (usr w)),
                                      investments = investments (manager (usr w)) @ [SIP a d mo]\<rparr>,
                         balance = dsub A (balance (usr w)) a\<rparr>,
                 stdin = in4,
                 stdout = stdout w @ [SIPMade]\<rparr>"
  using assms by (simp add: makeInvestment_def addInvestment_def)

lemma makeInvestment_FD:
  assumes "getNumericInput parse_int (stdin w) = Some (2, in1)"
    and "getNumericInput parse_double in1 = Some (a, in2)"
    and "\<not> dless A (dsub A (balance (usr w)) a) (MINIMUM_BALANCE A)"
    and "getNumericInput parse_int in2 = Some (d, in3)"
  shows "makeInvestment A w =
           Some \<lparr>usr = \<lparr>manager = \<lparr>transactions = transactions (manager (usr w)),
                                      investments = investments (manager (usr w)) @ [FD a d]\<rparr>,
                         balance = dsub A (balance (usr w)) a\<rparr>,
                 stdin = in3,
                 stdout = stdout w @ [FDMade]\<rparr>"
  using assms by (simp add: makeInvestment_def addInvestment_def)

lemma makeInvestment_invalid_type:
  assumes "getNumericInput parse_int (stdin w) = Some (c, in1)"
    and "c \<noteq> 0" "c \<noteq> 1" "c \<noteq> 2"
    and "getNumericInput parse_double in1 = Some (a, in2)"
    and "\<not> dless A (dsub A (balance (usr w)) a) (MINIMUM_BALANCE A)"
    and "getNumericInput parse_int in2 = Some (d, in3)"
  shows "makeInvestment A w =
           Some \<lparr>usr = usr w, stdin = in3, stdout = stdout w @ [InvalidInvestmentType]\<rparr>"
  using assms by (simp add: makeInvestment_def)

subsection \<open>The menu loop\<close>

lemma while_loop_nonzero: "c \<noteq> 0 \<Longrightarrow> while_loop A c w = run A w"
  by (simp add: run_def)

lemma run_zero:
  assumes "getNumericInput parse_int (stdin w) = Some (0, in1)"
  shows "run A w = Some \<lparr>usr = usr w, stdin = in1, stdout = stdout w @ [Goodbye]\<rparr>"
  using assms by (simp add: run_def menu_switch_def)

lemma run_nonzero:
  assumes "getNumericInput parse_int (stdin w) = Some (c, in1)" and "c \<noteq> 0"
  shows "run A w = (case menu_switch A c (w\<lparr>stdin := in1\<rparr>) of None \<Rightarrow> None | Some w' \<Rightarrow> run A w')"
  using assms by (simp add: run_def split: option.splits)

lemma run_exhausted:
  assumes "getNumericInput parse_int (stdin w) = None"
  shows "run A w = None"
  using assms by (simp add: run_def)

lemma while_loop_exit:
  assumes "while_loop A c w = Some w'" and "c \<noteq> 0"
  shows "\<exists>(w0 :: 'a world) in1. getNumericInput parse_int (stdin w0) = Some (0, in1) \<and>
                  w' = \<lparr>usr = usr w0, stdin = in1, stdout = stdout w0 @ [Goodbye]\<rparr>"
  using assms
proof (induction A c w rule: while_loop.induct)
  case (1 A choice w)
  from "1.prems" obtain c' in1 where rd: "getNumericInput parse_int (stdin w) = Some (c', in1)"
    by (auto split: option.splits)
  show ?case
  proof (cases "c' = 0")
    case True
    with rd "1.prems" have "w' = \<lparr>usr = usr w, stdin = in1, stdout = stdout w @ [Goodbye]\<rparr>"
      by (auto simp add: menu_switch_def)
    with rd True have "\<exists>in1. getNumericInput parse_int (stdin w) = Some (0, in1) \<and>
        w' = \<lparr>usr = usr w, stdin = in1, stdout = stdout w @ [Goodbye]\<rparr>"
      by simp
    then show ?thesis by (rule exI)
  next
    case False
    with rd "1.prems" obtain w1 where sw: "menu_switch A c' (w\<lparr>stdin := in1\<rparr>) = Some w1"
      and wl: "while_loop A c' w1 = Some w'"
      by (auto split: option.splits)
    show ?thesis
      by (rule "1.IH" [OF "1.prems"(2) rd refl sw wl False])
  qed
qed

text \<open>
  From here on the equations of \<open>while_loop\<close> are unfolded by hand: as a rewrite rule it
  would unfold the loop inside its own body.
\<close>

declare while_loop.simps [simp del]

subsection \<open>What an operation leaves of the input, and of the signs\<close>

lemma getNumericInput_rest:
  "getNumericInput parse ls = Some (v, r) \<Longrightarrow> set r \<subseteq> set ls"
  by (induction ls) (auto split: option.splits)

lemma getStringInput_rest: "set (snd (getStringInput ls)) \<subseteq> set ls"
  by (cases ls) auto

lemma read_double_nonneg:
  "list_all (line_nonneg A) ls \<Longrightarrow> getNumericInput parse_double ls = Some (v, r) \<Longrightarrow>
     dleq A (dlit A 0) v \<and> list_all (line_nonneg A) r"
  by (induction ls) (auto simp add: line_nonneg_def split: option.splits)

lemma read_int_nonneg:
  "list_all (line_nonneg A) ls \<Longrightarrow> getNumericInput parse_int ls = Some (n, r) \<Longrightarrow>
     0 \<le> sint n \<and> list_all (line_nonneg A) r"
  by (induction ls) (auto simp add: line_nonneg_def split: option.splits)

lemma read_string_nonneg:
  "list_all (line_nonneg A) ls \<Longrightarrow> list_all (line_nonneg A) (snd (getStringInput ls))"
  by (cases ls) auto

lemma recordIncome_rest:
  assumes "recordIncome A w = Some w'"
  shows "set (stdin w') \<subseteq> set (stdin w)"
proof -
  from assms obtain a in1 where rd: "getNumericInput parse_double (stdin w) = Some (a, in1)"
    by (auto simp add: recordIncome_def split: option.splits)
  with assms have "stdin w' = snd (getStringInput in1)"
    by (auto simp add: recordIncome_reads)
  with getNumericInput_rest [OF rd] getStringInput_rest [of in1] show ?thesis
    by auto
qed

lemma recordExpenditure_rest:
  assumes "recordExpenditure A w = Some w'"
  shows "set (stdin w') \<subseteq> set (stdin w)"
proof -
  from assms obtain a in1 where rd: "getNumericInput parse_double (stdin w) = Some (a, in1)"
    by (auto simp add: recordExpenditure_def split: option.splits)
  with assms have "stdin w' = in1 \<or> stdin w' = snd (getStringInput in1)"
    using recordExpenditure_declined [OF rd] recordExpenditure_recorded [OF rd]
    by (cases "dless A (dsub A (balance (usr w)) a) (MINIMUM_BALANCE A)") auto
  with getNumericInput_rest [OF rd] getStringInput_rest [of in1] show ?thesis
    by auto
qed

lemma makeInvestment_rest:
  assumes "makeInvestment A w = Some w'"
  shows "set (stdin w') \<subseteq> set (stdin w)"
  using assms unfolding makeInvestment_def
  by (auto split: option.splits if_splits dest!: getNumericInput_rest) blast+

lemma menu_switch_rest:
  assumes "menu_switch A c w = Some w'"
  shows "set (stdin w') \<subseteq> set (stdin w)"
  using assms recordIncome_rest [of A w w'] recordExpenditure_rest [of A w w'] makeInvestment_rest [of A w w']
  unfolding menu_switch_def by (auto split: if_splits)

lemma getNumericInput_from:
  "getNumericInput parse ls = Some (v, r) \<Longrightarrow> \<exists>l \<in> set ls. parse l = Some v"
  by (induction ls) (auto split: option.splits)

lemma while_loop_step:
  assumes "c \<noteq> 0" and "getNumericInput parse_int (stdin w) = Some (c', in1)"
  shows "while_loop A c w =
           (case menu_switch A c' (w\<lparr>stdin := in1\<rparr>) of None \<Rightarrow> None | Some w' \<Rightarrow> while_loop A c' w')"
  using assms by (subst while_loop.simps) simp

lemma while_loop_without_zero:
  assumes "list_all (\<lambda>l. parse_int l \<noteq> Some 0) (stdin w)" and "c \<noteq> 0"
  shows "while_loop A c w = None"
  using assms
proof (induction A c w rule: while_loop.induct)
  case (1 A choice w)
  show ?case
  proof (cases "getNumericInput parse_int (stdin w)")
    case None
    with "1.prems"(2) show ?thesis
      by (subst while_loop.simps) simp
  next
    case (Some x)
    obtain c' in1 where x: "x = (c', in1)" by (cases x)
    from Some x have rd: "getNumericInput parse_int (stdin w) = Some (c', in1)"
      by simp
    from getNumericInput_from [OF rd] "1.prems"(1) have c': "c' \<noteq> 0"
      by (auto simp add: list_all_iff)
    from getNumericInput_rest [OF rd] "1.prems"(1)
    have in1: "list_all (\<lambda>l. parse_int l \<noteq> Some 0) in1"
      by (auto simp add: list_all_iff)
    show ?thesis
    proof (cases "menu_switch A c' (w\<lparr>stdin := in1\<rparr>)")
      case None
      then show ?thesis
        by (simp only: while_loop_step [OF "1.prems"(2) rd] option.case)
    next
      case sw: (Some w1)
      from menu_switch_rest [OF sw] in1 have "list_all (\<lambda>l. parse_int l \<noteq> Some 0) (stdin w1)"
        by (auto simp add: list_all_iff)
      from "1.IH" [OF "1.prems"(2) rd refl sw this c'] have "while_loop A c' w1 = None" .
      with sw show ?thesis
        by (simp only: while_loop_step [OF "1.prems"(2) rd] option.case)
    qed
  qed
qed

lemma recordIncome_nonneg:
  assumes "list_all (line_nonneg A) (stdin w)" and "ledger_nonneg A (manager (usr w))"
    and "recordIncome A w = Some w'"
  shows "ledger_nonneg A (manager (usr w')) \<and> list_all (line_nonneg A) (stdin w')"
proof -
  from assms(3) obtain a in1 where rd: "getNumericInput parse_double (stdin w) = Some (a, in1)"
    by (auto simp add: recordIncome_def split: option.splits)
  from read_double_nonneg [OF assms(1) rd] have "dleq A (dlit A 0) a" "list_all (line_nonneg A) in1"
    by simp_all
  with assms(2,3) read_string_nonneg [of A in1] show ?thesis
    by (auto simp add: recordIncome_reads [OF rd] ledger_nonneg_def Transaction_nonneg_def)
qed

lemma recordExpenditure_nonneg:
  assumes "list_all (line_nonneg A) (stdin w)" and "ledger_nonneg A (manager (usr w))"
    and "recordExpenditure A w = Some w'"
  shows "ledger_nonneg A (manager (usr w')) \<and> list_all (line_nonneg A) (stdin w')"
proof -
  from assms(3) obtain a in1 where rd: "getNumericInput parse_double (stdin w) = Some (a, in1)"
    by (auto simp add: recordExpenditure_def split: option.splits)
  from read_double_nonneg [OF assms(1) rd] have "dleq A (dlit A 0) a" "list_all (line_nonneg A) in1"
    by simp_all
  with assms(2,3) read_string_nonneg [of A in1] show ?thesis
    using recordExpenditure_declined [OF rd] recordExpenditure_recorded [OF rd]
    by (cases "dless A (dsub A (balance (usr w)) a) (MINIMUM_BALANCE A)")
       (auto simp add: ledger_nonneg_def Transaction_nonneg_def)
qed

lemma makeInvestment_nonneg:
  assumes nn: "list_all (line_nonneg A) (stdin w)" and led: "ledger_nonneg A (manager (usr w))"
    and mk: "makeInvestment A w = Some w'"
  shows "ledger_nonneg A (manager (usr w')) \<and> list_all (line_nonneg A) (stdin w')"
proof -
  from mk obtain c in1 where rd1: "getNumericInput parse_int (stdin w) = Some (c, in1)"
    by (auto simp add: makeInvestment_def split: option.splits)
  from read_int_nonneg [OF nn rd1] have n1: "list_all (line_nonneg A) in1"
    by simp
  show ?thesis
  proof (cases "c = 0")
    case True
    with makeInvestment_cancel [of w in1 A] rd1 mk led n1 show ?thesis
      by auto
  next
    case c0: False
    with mk rd1 obtain p in2 where rd2: "getNumericInput parse_double in1 = Some (p, in2)"
      by (auto simp add: makeInvestment_def split: option.splits)
    from read_double_nonneg [OF n1 rd2] have p: "dleq A (dlit A 0) p" and n2: "list_all (line_nonneg A) in2"
      by simp_all
    show ?thesis
    proof (cases "dless A (dsub A (balance (usr w)) p) (MINIMUM_BALANCE A)")
      case True
      from makeInvestment_failed [OF rd1 c0 rd2 True] mk led n2 show ?thesis
        by auto
    next
      case guard: False
      with mk rd1 rd2 c0 obtain d in3 where rd3: "getNumericInput parse_int in2 = Some (d, in3)"
        by (auto simp add: makeInvestment_def split: option.splits)
      from read_int_nonneg [OF n2 rd3] have d: "0 \<le> sint d" and n3: "list_all (line_nonneg A) in3"
        by simp_all
      consider (sip) "c = 1" | (fd) "c = 2" | (other) "c \<noteq> 1" "c \<noteq> 2"
        by blast
      then show ?thesis
      proof cases
        case sip
        with mk rd1 rd2 rd3 guard obtain mo in4 where
          rd4: "getNumericInput parse_double in3 = Some (mo, in4)"
          by (auto simp add: makeInvestment_def split: option.splits)
        from read_double_nonneg [OF n3 rd4] have n4: "list_all (line_nonneg A) in4"
          by simp
        from makeInvestment_SIP [OF rd1 [unfolded sip] rd2 guard rd3 rd4] mk led p d n4
        show ?thesis
          by (auto simp add: ledger_nonneg_def Investment_nonneg_def)
      next
        case fd
        from makeInvestment_FD [OF rd1 [unfolded fd] rd2 guard rd3] mk led p d n3
        show ?thesis
          by (auto simp add: ledger_nonneg_def Investment_nonneg_def)
      next
        case other
        from makeInvestment_invalid_type [OF rd1 c0 other rd2 guard rd3] mk led n3
        show ?thesis
          by auto
      qed
    qed
  qed
qed

lemma menu_switch_nonneg:
  assumes "list_all (line_nonneg A) (stdin w)" and "ledger_nonneg A (manager (usr w))"
    and "menu_switch A c w = Some w'"
  shows "ledger_nonneg A (manager (usr w')) \<and> list_all (line_nonneg A) (stdin w')"
  using assms recordIncome_nonneg [of A w w'] recordExpenditure_nonneg [of A w w']
    makeInvestment_nonneg [of A w w']
  unfolding menu_switch_def by (auto split: if_splits)

lemma while_loop_nonneg:
  assumes "list_all (line_nonneg A) (stdin w)" and "ledger_nonneg A (manager (usr w))"
    and "while_loop A c w = Some w'"
  shows "ledger_nonneg A (manager (usr w'))"
  using assms
proof (induction A c w rule: while_loop.induct)
  case (1 A choice w)
  show ?case
  proof (cases "choice = 0")
    case True
    with "1.prems"(3) have "w' = w"
      by (subst (asm) while_loop.simps) simp
    with "1.prems"(2) show ?thesis by simp
  next
    case False
    from "1.prems"(3) False obtain c' in1 where
      rd: "getNumericInput parse_int (stdin w) = Some (c', in1)"
      by (subst (asm) while_loop.simps) (auto split: option.splits)
    from "1.prems"(3) obtain w1 where sw: "menu_switch A c' (w\<lparr>stdin := in1\<rparr>) = Some w1"
      and wl: "while_loop A c' w1 = Some w'"
      unfolding while_loop_step [OF False rd] by (auto split: option.splits)
    from read_int_nonneg [OF "1.prems"(1) rd]
    have "list_all (line_nonneg A) (stdin (w\<lparr>stdin := in1\<rparr>))"
      by simp
    from menu_switch_nonneg [OF this _ sw] "1.prems"(2)
    have "ledger_nonneg A (manager (usr w1))" "list_all (line_nonneg A) (stdin w1)"
      by simp_all
    from "1.IH" [OF False rd refl sw this(2,1) wl] show ?thesis .
  qed
qed

lemma run_unfold:
  "run A w =
     (case getNumericInput parse_int (stdin w) of
        None \<Rightarrow> None
      | Some (c, in1) \<Rightarrow>
          (case menu_switch A c (w\<lparr>stdin := in1\<rparr>) of
             None \<Rightarrow> None
           | Some w' \<Rightarrow> if c = 0 then Some w' else run A w'))"
proof (cases "getNumericInput parse_int (stdin w)")
  case None
  then show ?thesis by (simp add: run_exhausted)
next
  case (Some x)
  obtain c in1 where x: "x = (c, in1)" by (cases x)
  show ?thesis
  proof (cases "c = 0")
    case True
    with Some x show ?thesis
      by (simp add: run_zero menu_switch_def)
  next
    case False
    with Some x show ?thesis
      by (simp add: run_nonzero split: option.splits)
  qed
qed

text \<open>The loop returns exactly when some pass reads 0, with the state that pass leaves.\<close>

lemma while_loop_passes:
  assumes "while_loop A c w = Some w'" and "c \<noteq> 0"
  shows "\<exists>n. passes A n w = Some (0, w')"
  using assms
proof (induction A c w rule: while_loop.induct)
  case (1 A choice w)
  from "1.prems" obtain c' in1 where rd: "getNumericInput parse_int (stdin w) = Some (c', in1)"
    by (subst (asm) while_loop.simps) (auto split: option.splits)
  from "1.prems" rd obtain w1 where sw: "menu_switch A c' (w\<lparr>stdin := in1\<rparr>) = Some w1"
    and wl: "while_loop A c' w1 = Some w'"
    by (subst (asm) while_loop.simps) (auto split: option.splits)
  from rd sw have p: "pass A w = Some (c', w1)"
    by (simp add: pass_def)
  show ?case
  proof (cases "c' = 0")
    case True
    with wl have "w' = w1"
      by (subst (asm) while_loop.simps) simp
    with p True have "passes A 0 w = Some (0, w')" by simp
    then show ?thesis by (rule exI)
  next
    case False
    from "1.IH" [OF "1.prems"(2) rd refl sw wl False]
    obtain n where "passes A n w1 = Some (0, w')" by blast
    with p False have "passes A (Suc n) w = Some (0, w')" by simp
    then show ?thesis by (rule exI)
  qed
qed

lemma passes_run:
  assumes "passes A n w = Some (0, w')"
  shows "run A w = Some w'"
  using assms
proof (induction n arbitrary: w)
  case 0
  then obtain in1 where rd: "getNumericInput parse_int (stdin w) = Some (0, in1)"
    and sw: "menu_switch A 0 (w\<lparr>stdin := in1\<rparr>) = Some w'"
    by (auto simp add: pass_def split: option.splits)
  from sw have "w' = \<lparr>usr = usr w, stdin = in1, stdout = stdout w @ [Goodbye]\<rparr>"
    by (auto simp add: menu_switch_def)
  with run_zero [OF rd] show ?case by simp
next
  case (Suc n)
  then obtain c w1 where p: "pass A w = Some (c, w1)" and c: "c \<noteq> 0"
    and rest: "passes A n w1 = Some (0, w')"
    by (auto split: option.splits if_splits)
  from p obtain in1 where rd: "getNumericInput parse_int (stdin w) = Some (c, in1)"
    and sw: "menu_switch A c (w\<lparr>stdin := in1\<rparr>) = Some w1"
    by (auto simp add: pass_def split: option.splits)
  from run_nonzero [OF rd c] sw have "run A w = run A w1" by simp
  with Suc.IH [OF rest] show ?case by simp
qed

lemma run_passes: "(run A w = Some w') = (\<exists>n. passes A n w = Some (0, w'))"
  using while_loop_passes [of A "- 1" w w'] passes_run [of A _ w w']
  by (auto simp add: run_def)

subsection \<open>Rounding to the nearest double\<close>

lemma halvings_bounds: "1 \<le> x \<Longrightarrow> 2 ^ halvings x \<le> x \<and> x < 2 * 2 ^ halvings x"
proof (induction x rule: halvings.induct)
  case (1 x)
  show ?case
  proof (cases "2 \<le> x")
    case True
    with "1.IH" have "2 ^ halvings (x / 2) \<le> x / 2 \<and> x / 2 < 2 * 2 ^ halvings (x / 2)"
      by simp
    with True show ?thesis
      by (subst (1 2) halvings.simps) simp
  next
    case False
    with "1.prems" show ?thesis
      by (subst (1 2) halvings.simps) simp
  qed
qed

lemma doublings_bounds:
  "0 < x \<Longrightarrow> x < 1 \<Longrightarrow> 1 \<le> 2 ^ doublings x * x \<and> 2 ^ doublings x * x < 2"
proof (induction x rule: doublings.induct)
  case (1 x)
  show ?case
  proof (cases "2 * x < 1")
    case True
    with "1.IH" "1.prems"
    have "1 \<le> 2 ^ doublings (2 * x) * (2 * x) \<and> 2 ^ doublings (2 * x) * (2 * x) < 2"
      by simp
    with "1.prems" show ?thesis
      by (subst (1 2) doublings.simps) (simp add: mult.assoc)
  next
    case False
    then have "doublings (2 * x) = 0"
      by (subst doublings.simps) simp
    with False "1.prems" show ?thesis
      by (subst (1 2) doublings.simps) simp
  qed
qed

lemma ilog2_bounds:
  assumes "0 < x"
  shows "2 powi ilog2 x \<le> x \<and> x < 2 powi (ilog2 x + 1)"
proof (cases "1 \<le> x")
  case True
  with halvings_bounds [of x] show ?thesis
    by (simp add: ilog2_def power_int_add)
next
  case False
  with assms doublings_bounds [of x] have b: "1 \<le> 2 ^ doublings x * x" "2 ^ doublings x * x < 2"
    by simp_all
  have p: "(0::real) < 2 ^ doublings x" by simp
  from False have "ilog2 x = - int (doublings x)" by (simp add: ilog2_def)
  moreover have "2 powi (- int (doublings x)) \<le> x"
    using b(1) p by (simp add: power_int_minus field_simps)
  moreover have "x < 2 powi (- int (doublings x) + 1)"
    using b(2) p by (simp add: power_int_diff field_simps)
  ultimately show ?thesis by simp
qed

lemma ilog2_ge:
  assumes "0 < x" and "2 powi m \<le> x"
  shows "m \<le> ilog2 x"
proof (rule ccontr)
  assume "\<not> m \<le> ilog2 x"
  then have "ilog2 x + 1 \<le> m" by simp
  then have "(2::real) powi (ilog2 x + 1) \<le> 2 powi m"
    by (intro power_int_increasing) simp_all
  with assms(2) ilog2_bounds [OF assms(1)] show False by simp
qed

lemma ilog2_less:
  assumes "0 < x" and "x < 2 powi m"
  shows "ilog2 x < m"
proof (rule ccontr)
  assume "\<not> ilog2 x < m"
  then have "(2::real) powi m \<le> 2 powi ilog2 x"
    by (intro power_int_increasing) simp_all
  with assms(2) ilog2_bounds [OF assms(1)] show False by simp
qed

lemma round_half_even_ge:
  assumes "of_int k \<le> r"
  shows "k \<le> round_half_even r"
proof -
  from assms have "k \<le> \<lfloor>r\<rfloor>" by (simp add: le_floor_iff)
  then show ?thesis
    by (simp add: round_half_even_def Let_def)
qed

lemma round_half_even_small:
  assumes "0 \<le> r" and "r < 1 / 2"
  shows "round_half_even r = 0"
proof -
  from assms have "\<lfloor>r\<rfloor> = 0" by (simp add: floor_eq_iff)
  with assms(2) show ?thesis
    by (simp add: round_half_even_def Let_def)
qed

lemma quantum_positive: "0 < quantum x"
  by (simp add: quantum_def)

lemma nearest_lower:
  assumes "of_int k * quantum x \<le> x"
  shows "of_int k * quantum x \<le> nearest x"
proof -
  from assms quantum_positive [of x] have "of_int k \<le> x / quantum x"
    by (simp add: field_simps)
  then have "k \<le> round_half_even (x / quantum x)" by (rule round_half_even_ge)
  then have "(of_int k :: real) \<le> of_int (round_half_even (x / quantum x))" by simp
  with quantum_positive [of x] show ?thesis by (simp add: nearest_def)
qed

lemma round64_positive:
  assumes "0 \<le> x"
  shows "round64 x = (if 2 ^ 1024 \<le> nearest x then PInf else Finite (nearest x))"
proof (cases "x = 0")
  case True
  then show ?thesis
    by (simp add: round64_def nearest_def round_half_even_def)
next
  case False
  with assms have x: "0 < x" by simp
  then have "of_int 0 * quantum x \<le> x" by simp
  then have "of_int 0 * quantum x \<le> nearest x" by (rule nearest_lower)
  with x show ?thesis
    by (simp add: round64_def)
qed

text \<open>A real of at least \<open>2^e\<close>, with \<open>e\<close> a normal exponent, does not round below \<open>2^e\<close>.\<close>

lemma nearest_ge_power:
  assumes "- 1022 \<le> e" and "2 powi e \<le> x"
  shows "2 powi e \<le> nearest x"
proof -
  have x: "0 < x"
    using assms(2) by (rule less_le_trans [rotated]) simp
  then have ax: "\<bar>x\<bar> = x" by simp
  from ilog2_ge [OF x assms(2)] assms(1) have i: "max (ilog2 x) (- 1022) = ilog2 x" "e \<le> ilog2 x"
    by simp_all
  have q: "of_int (2 ^ 52) * quantum x = 2 powi ilog2 x"
    by (simp add: quantum_def ax i(1) power_int_diff)
  with ilog2_bounds [OF x] have "of_int (2 ^ 52) * quantum x \<le> x" by simp
  then have "of_int (2 ^ 52) * quantum x \<le> nearest x" by (rule nearest_lower)
  with q have "2 powi ilog2 x \<le> nearest x" by simp
  moreover have "(2::real) powi e \<le> 2 powi ilog2 x"
    using i(2) by (intro power_int_increasing) simp_all
  ultimately show ?thesis by simp
qed

text \<open>Rounding keeps a real of at least 1000 at least 1000, since 1000 is a \<open>double\<close>.\<close>

lemma nearest_ge_1000:
  assumes "1000 \<le> x"
  shows "1000 \<le> nearest x"
proof -
  from assms have x: "0 < x" by simp
  then have ax: "\<bar>x\<bar> = x" by simp
  have "(2::real) powi 9 \<le> x" using assms by simp
  from ilog2_ge [OF x this] have i9: "9 \<le> ilog2 x" .
  show ?thesis
  proof (cases "ilog2 x = 9")
    case True
    have "of_int (1000 * 2 ^ 43) * quantum x = 1000"
      by (simp add: quantum_def ax True power_int_minus)
    with assms nearest_lower [of "1000 * 2 ^ 43" x] show ?thesis
      by simp
  next
    case False
    with i9 have "10 \<le> ilog2 x" by simp
    then have "(2::real) powi 10 \<le> 2 powi ilog2 x"
      by (intro power_int_increasing) simp_all
    with ilog2_bounds [OF x] have "(2::real) powi 10 \<le> x" by simp
    from nearest_ge_power [OF _ this] show ?thesis
      by simp
  qed
qed

lemma round64_ge_1000:
  assumes "1000 \<le> x"
  shows "\<not> flt (round64 x) (Finite 1000)"
  using assms nearest_ge_1000 [OF assms] by (simp add: round64_positive)

text \<open>Overflow and underflow of the rounding.\<close>

lemma round64_overflow:
  assumes "2 ^ 1024 \<le> x"
  shows "round64 x = PInf"
proof -
  from assms have "(2::real) powi 1024 \<le> x" by simp
  from nearest_ge_power [OF _ this] have "2 ^ 1024 \<le> nearest x" by simp
  moreover have "0 \<le> x"
    using assms by (rule order_trans [rotated]) simp
  ultimately show ?thesis
    by (simp add: round64_positive)
qed

lemma round64_underflow:
  assumes "0 < x" and "x < 2 powi (- 1075)"
  shows "round64 x = Finite 0"
proof -
  from assms(1) have ax: "\<bar>x\<bar> = x" by simp
  from ilog2_less [OF assms] have q: "quantum x = 2 powi (- 1074)"
    by (simp add: quantum_def ax)
  have "(2::real) powi (- 1075) = 2 powi (- 1074) / 2"
    by (simp add: power_int_minus field_simps)
  with assms(2) have "x / 2 powi (- 1074) < 1 / 2" by (simp add: field_simps)
  moreover have "0 \<le> x / 2 powi (- 1074)"
    using assms(1) by simp
  ultimately have "round_half_even (x / 2 powi (- 1074)) = 0"
    by (intro round_half_even_small)
  then have "round_half_even (x / quantum x) = 0"
    by (simp only: q)
  then have "nearest x = 0" by (simp add: nearest_def)
  with assms(1) show ?thesis
    by (simp add: round64_positive)
qed

text \<open>The equations that evaluate the binary64 arithmetic on numerals.\<close>

lemmas binary64_eval =
  binary64_def fsub_def signed_inf_def round64_def nearest_def quantum_def ilog2_def
  halvings.simps doublings.simps round_half_even_def Let_def

lemma MINIMUM_BALANCE_binary64: "MINIMUM_BALANCE (binary64 libm_pow) = Finite 1000"
  by (simp add: MINIMUM_BALANCE_def binary64_eval)

lemma MINIMUM_BALANCE_exact: "MINIMUM_BALANCE exact = 1000"
  by (simp add: MINIMUM_BALANCE_def exact_def)

text \<open>
  On the machine a negative amount passes the guard from any balance that is at least
  1000, the infinities included.
\<close>

lemma negative_passes_guard:
  assumes "flt a (Finite 0)" and "fle (Finite 1000) b"
  shows "\<not> flt (fsub b a) (Finite 1000)"
proof (cases a)
  case (Finite y)
  show ?thesis
  proof (cases b)
    case (Finite x)
    from assms \<open>a = Finite y\<close> Finite have "1000 \<le> x - y" by simp
    then have "\<not> flt (round64 (x - y)) (Finite 1000)" by (rule round64_ge_1000)
    with \<open>a = Finite y\<close> Finite show ?thesis by (simp add: fsub_def)
  qed (use assms \<open>a = Finite y\<close> in \<open>simp_all add: fsub_def\<close>)
next
  case NInf
  with assms show ?thesis by (cases b) (simp_all add: fsub_def)
qed (use assms in simp_all)

subsection \<open>The ledger and the exponent of the maturity\<close>

lemma apply_ops_transactions:
  "transactions (apply_ops ops m) = transactions m @ added_transactions ops"
  by (induction ops arbitrary: m rule: added_transactions.induct)
     (simp_all add: addTransaction_def addInvestment_def)

lemma apply_ops_investments:
  "investments (apply_ops ops m) = investments m @ added_investments ops"
  by (induction ops arbitrary: m rule: added_investments.induct)
     (simp_all add: addTransaction_def addInvestment_def)

lemma sint_times_12:
  fixes d :: cint
  assumes "- (2 ^ 31) \<le> 12 * sint d" and "12 * sint d < 2 ^ 31"
  shows "sint (d * 12) = 12 * sint d"
  using assms by (simp add: sint_word_ariths signed_take_bit_int_eq_self)

text \<open>
  Beyond that range the product wraps: 178956971 years are a negative number of months.
\<close>

lemma SIP_months_wrap: "sint ((178956971 :: cint) * 12) = - 2147483644"
  by simp

subsection \<open>The powers of the growth factors\<close>

text \<open>
  Where the correctly rounded power leaves the range of the doubles: a base \<open>x \<ge> 1\<close> whose
  \<open>k\<close>-th power is at least 2 overflows from the exponent \<open>1024 k\<close> on, and underflows to
  zero from the exponent \<open>- 1076 k\<close> down.
\<close>

lemma power_ge_power_2:
  fixes x :: real
  assumes "1 \<le> x" and "2 \<le> x ^ k" and "k * j \<le> n"
  shows "2 ^ j \<le> x ^ n"
proof -
  have "(2 :: real) ^ j \<le> (x ^ k) ^ j"
    using assms(2) by (intro power_mono) simp_all
  also have "\<dots> = x ^ (k * j)"
    by (simp add: power_mult)
  also have "\<dots> \<le> x ^ n"
    using assms(1,3) by (rule power_increasing [rotated])
  finally show ?thesis .
qed

lemma pow_overflow:
  assumes "1 \<le> x" and "2 \<le> x ^ k" and "int (k * 1024) \<le> n"
  shows "pow (Finite x) n = PInf"
proof -
  from assms(2) have "k \<noteq> 0"
    by (cases k) simp_all
  with assms(3) have n: "0 < n" by simp
  from assms(3) n have "k * 1024 \<le> nat n" by simp
  with assms(1,2) have "(2 :: real) ^ 1024 \<le> x ^ nat n"
    by (rule power_ge_power_2)
  with n have "2 ^ 1024 \<le> x powi n"
    by (simp only: power_int_def) simp
  then have "round64 (x powi n) = PInf"
    by (rule round64_overflow)
  with n assms(1) show ?thesis by simp
qed

lemma pow_underflow:
  assumes "1 \<le> x" and "2 \<le> x ^ k" and "n \<le> - int (k * 1076)"
  shows "pow (Finite x) n = Finite 0"
proof -
  from assms(2) have "k \<noteq> 0"
    by (cases k) simp_all
  with assms(3) have n: "n < 0" by simp
  from assms(3) n have "k * 1076 \<le> nat (- n)" by simp
  with assms(1,2) have big: "(2 :: real) ^ 1076 \<le> x ^ nat (- n)"
    by (rule power_ge_power_2)
  have pos: "0 < x ^ nat (- n)"
    using assms(1) by simp
  from n have eq: "x powi n = inverse (x ^ nat (- n))"
    by (simp add: power_int_def power_inverse)
  from pos have "0 < x powi n"
    by (simp only: eq) simp
  moreover have "x powi n < 2 powi (- 1075)"
  proof -
    have "inverse (x ^ nat (- n)) \<le> inverse ((2 :: real) ^ 1076)"
      using big by (intro le_imp_inverse_le) simp_all
    also have "\<dots> < inverse ((2 :: real) ^ 1075)"
      by (intro less_imp_inverse_less power_strict_increasing) simp_all
    also have "\<dots> = 2 powi (- 1075)"
      by (simp add: power_int_minus)
    finally show ?thesis by (simp only: eq)
  qed
  ultimately have "round64 (x powi n) = Finite 0"
    by (rule round64_underflow)
  with n assms(1) show ?thesis by simp
qed

text \<open>
  The constants of \<open>getMaturityAmount\<close> on the machine: the monthly rate \<open>0.096 / 12\<close>, the
  monthly growth factor \<open>1 + 0.096 / 12\<close> and the yearly growth factor \<open>1 + 0.071\<close>, each
  the double that the rounded operations give.
\<close>

lemma dlit_binary64_int: "dlit (binary64 libm_pow) 1 = Finite 1" "dlit (binary64 libm_pow) 0 = Finite 0"
  by (simp_all add: binary64_eval)

lemma SIP_monthly_rate_binary64:
  "ddiv (binary64 libm_pow) (SIP_ANNUAL_RATE (binary64 libm_pow)) (dlit (binary64 libm_pow) 12) =
     Finite (1152921504606847 / 2 ^ 57)"
  by (simp add: SIP_ANNUAL_RATE_def binary64_eval)

lemma SIP_growth_binary64:
  "dadd (binary64 libm_pow) (dlit (binary64 libm_pow) 1)
     (ddiv (binary64 libm_pow) (SIP_ANNUAL_RATE (binary64 libm_pow)) (dlit (binary64 libm_pow) 12)) =
     Finite (1134907106097365 / 2 ^ 50)"
  by (simp add: SIP_ANNUAL_RATE_def binary64_eval)

lemma FD_growth_binary64:
  "dadd (binary64 libm_pow) (dlit (binary64 libm_pow) 1) (FD_ANNUAL_RATE (binary64 libm_pow)) =
     Finite (4823355200913801 / 2 ^ 52)"
  by (simp add: FD_ANNUAL_RATE_def binary64_eval)

lemma SIP_binary64:
  "getMaturityAmount (binary64 libm_pow) (SIP p d m) =
     fadd (fmul p (libm_pow (Finite (1134907106097365 / 2 ^ 50)) (sint (d * 12))))
       (fmul m (fdiv (fsub (libm_pow (Finite (1134907106097365 / 2 ^ 50)) (sint (d * 12)))
                        (Finite 1))
                  (Finite (1152921504606847 / 2 ^ 57))))"
proof -
  have ops: "dadd (binary64 libm_pow) = fadd" "dmul (binary64 libm_pow) = fmul"
    "ddiv (binary64 libm_pow) = fdiv" "dsub (binary64 libm_pow) = fsub"
    "dpow (binary64 libm_pow) = libm_pow"
    by (simp_all add: binary64_def)
  show ?thesis
    unfolding getMaturityAmount.simps Let_def SIP_growth_binary64
    unfolding SIP_monthly_rate_binary64 dlit_binary64_int
    by (simp only: ops)
qed

lemma FD_binary64:
  "getMaturityAmount (binary64 libm_pow) (FD p d) =
     fmul p (libm_pow (Finite (4823355200913801 / 2 ^ 52)) (sint d))"
proof -
  have ops: "dmul (binary64 libm_pow) = fmul" "dpow (binary64 libm_pow) = libm_pow"
    by (simp_all add: binary64_def)
  show ?thesis
    unfolding getMaturityAmount.simps FD_growth_binary64
    by (simp only: ops)
qed

text \<open>
  The monthly growth factor doubles within 96 months and the yearly one within 16 years,
  by repeated squaring of a lower bound.
\<close>

lemma power_double_bound:
  fixes x :: real
  assumes "a \<le> x ^ n" and "0 \<le> a" and "b \<le> a * a"
  shows "b \<le> x ^ (2 * n)"
proof -
  have "a * a \<le> x ^ n * x ^ n"
    using assms(1,2) by (intro mult_mono) simp_all
  also have "\<dots> = x ^ (2 * n)"
    by (simp add: power_add [symmetric] mult_2)
  finally show ?thesis using assms(3) by simp
qed

lemma SIP_growth_doubles:
  fixes x :: real
  assumes "126 / 125 \<le> x"
  shows "2 \<le> x ^ 96"
proof -
  have 1: "126 / 125 \<le> x ^ 1" using assms by simp
  have 2: "1016 / 1000 \<le> x ^ 2"
    using power_double_bound [OF 1, of "1016 / 1000"] by simp
  have 4: "1032 / 1000 \<le> x ^ 4"
    using power_double_bound [OF 2, of "1032 / 1000"] by simp
  have 8: "1065 / 1000 \<le> x ^ 8"
    using power_double_bound [OF 4, of "1065 / 1000"] by simp
  have 16: "1134 / 1000 \<le> x ^ 16"
    using power_double_bound [OF 8, of "1134 / 1000"] by simp
  have 32: "1285 / 1000 \<le> x ^ 32"
    using power_double_bound [OF 16, of "1285 / 1000"] by simp
  have 64: "1650 / 1000 \<le> x ^ 64"
    using power_double_bound [OF 32, of "1650 / 1000"] by simp
  have "(1650 / 1000) * (1285 / 1000) \<le> x ^ 64 * x ^ 32"
    using 64 32 by (intro mult_mono) simp_all
  also have "\<dots> = x ^ 96"
    by (simp add: power_add [symmetric])
  finally show ?thesis by simp
qed

lemma FD_growth_doubles:
  fixes x :: real
  assumes "10709 / 10000 \<le> x"
  shows "2 \<le> x ^ 16"
proof -
  have 1: "10709 / 10000 \<le> x ^ 1" using assms by simp
  have 2: "1146 / 1000 \<le> x ^ 2"
    using power_double_bound [OF 1, of "1146 / 1000"] by simp
  have 4: "1313 / 1000 \<le> x ^ 4"
    using power_double_bound [OF 2, of "1313 / 1000"] by simp
  have 8: "1723 / 1000 \<le> x ^ 8"
    using power_double_bound [OF 4, of "1723 / 1000"] by simp
  have 16: "2 \<le> x ^ 16"
    using power_double_bound [OF 8, of 2] by simp
  then show ?thesis .
qed

text \<open>
  So the correctly rounded \<open>pow\<close> is infinite from 98304 months and from 16384 years on,
  and the monthly one is zero from -103296 months down.
\<close>

lemma SIP_pow_overflow:
  assumes "98304 \<le> n"
  shows "pow (Finite (1134907106097365 / 2 ^ 50)) n = PInf"
proof (rule pow_overflow [where k = 96])
  show "(1 :: real) \<le> 1134907106097365 / 2 ^ 50" by simp
  show "(2 :: real) \<le> (1134907106097365 / 2 ^ 50) ^ 96"
    by (rule SIP_growth_doubles) simp
  show "int (96 * 1024) \<le> n" using assms by simp
qed

lemma SIP_pow_underflow:
  assumes "n \<le> - 103296"
  shows "pow (Finite (1134907106097365 / 2 ^ 50)) n = Finite 0"
proof (rule pow_underflow [where k = 96])
  show "(1 :: real) \<le> 1134907106097365 / 2 ^ 50" by simp
  show "(2 :: real) \<le> (1134907106097365 / 2 ^ 50) ^ 96"
    by (rule SIP_growth_doubles) simp
  show "n \<le> - int (96 * 1076)" using assms by simp
qed

lemma FD_pow_overflow:
  assumes "16384 \<le> n"
  shows "pow (Finite (4823355200913801 / 2 ^ 52)) n = PInf"
proof (rule pow_overflow [where k = 16])
  show "(1 :: real) \<le> 4823355200913801 / 2 ^ 52" by simp
  show "(2 :: real) \<le> (4823355200913801 / 2 ^ 52) ^ 16"
    by (rule FD_growth_doubles) simp
  show "int (16 * 1024) \<le> n" using assms by simp
qed

subsection \<open>The claims\<close>

text \<open>
  C1, as the code has it. The guard of \<open>recordExpenditure\<close> and \<open>makeInvestment\<close>, in any
  arithmetic \<open>A\<close>. Once the amount \<open>a\<close> has been read, \<open>recordExpenditure\<close> declines when
  the difference \<open>balance - a\<close>, as the arithmetic computes it, is below \<open>MINIMUM_BALANCE\<close>,
  leaving the user (balance, transactions, investments) as it was, and otherwise makes
  that same difference the balance and appends the one record \<open>Expenditure a\<close> with the
  description read next. For an investment of type 1 (SIP) or 2 (FD) with principal \<open>p\<close>,
  \<open>makeInvestment\<close> fails when the computed \<open>balance - p\<close> is below \<open>MINIMUM_BALANCE\<close>,
  leaving the user as it was, and otherwise makes it the balance and appends the one
  record \<open>SIP p d mo\<close> or \<open>FD p d\<close>; the transactions are untouched. On the machine the
  minimum is 1000 and the difference of two finite doubles is the exact difference
  rounded to the nearest double; in exact arithmetic it is the exact difference.
\<close>

theorem balance_guard_law:
  fixes A :: "'a arith" and w :: "'a world"
  shows
   "(getNumericInput parse_double (stdin w) = Some (a, rest) \<longrightarrow>
       recordExpenditure A w =
         Some (if dless A (dsub A (balance (usr w)) a) (MINIMUM_BALANCE A)
               then \<lparr>usr = usr w, stdin = rest,
                     stdout = stdout w @ [TransactionDeclined (MINIMUM_BALANCE A)]\<rparr>
               else \<lparr>usr = \<lparr>manager = \<lparr>transactions = transactions (manager (usr w)) @
                                                    [Expenditure a (fst (getStringInput rest))],
                                              investments = investments (manager (usr w))\<rparr>,
                                 balance = dsub A (balance (usr w)) a\<rparr>,
                     stdin = snd (getStringInput rest),
                     stdout = stdout w @ [ExpenditureRecorded]\<rparr>)) \<and>
    (getNumericInput parse_int (stdin w) = Some (c, ra) \<and> (c = 1 \<or> c = 2) \<and>
     getNumericInput parse_double ra = Some (p, rb) \<and>
     dless A (dsub A (balance (usr w)) p) (MINIMUM_BALANCE A) \<longrightarrow>
       makeInvestment A w =
         Some \<lparr>usr = usr w, stdin = rb,
               stdout = stdout w @ [InvestmentFailed (MINIMUM_BALANCE A)]\<rparr>) \<and>
    (getNumericInput parse_int (stdin w) = Some (1, ra) \<and>
     getNumericInput parse_double ra = Some (p, rb) \<and>
     \<not> dless A (dsub A (balance (usr w)) p) (MINIMUM_BALANCE A) \<and>
     getNumericInput parse_int rb = Some (d, rc) \<and>
     getNumericInput parse_double rc = Some (mo, rd) \<longrightarrow>
       makeInvestment A w =
         Some \<lparr>usr = \<lparr>manager = \<lparr>transactions = transactions (manager (usr w)),
                                    investments = investments (manager (usr w)) @ [SIP p d mo]\<rparr>,
                       balance = dsub A (balance (usr w)) p\<rparr>,
               stdin = rd,
               stdout = stdout w @ [SIPMade]\<rparr>) \<and>
    (getNumericInput parse_int (stdin w) = Some (2, ra) \<and>
     getNumericInput parse_double ra = Some (p, rb) \<and>
     \<not> dless A (dsub A (balance (usr w)) p) (MINIMUM_BALANCE A) \<and>
     getNumericInput parse_int rb = Some (d, rc) \<longrightarrow>
       makeInvestment A w =
         Some \<lparr>usr = \<lparr>manager = \<lparr>transactions = transactions (manager (usr w)),
                                    investments = investments (manager (usr w)) @ [FD p d]\<rparr>,
                       balance = dsub A (balance (usr w)) p\<rparr>,
               stdin = rc,
               stdout = stdout w @ [FDMade]\<rparr>) \<and>
    MINIMUM_BALANCE (binary64 libm_pow) = Finite 1000 \<and>
    dsub (binary64 libm_pow) (Finite x) (Finite y) = round64 (x - y) \<and>
    dless (binary64 libm_pow) (Finite x) (Finite y) = (x < y) \<and>
    MINIMUM_BALANCE exact = 1000 \<and>
    dsub exact x y = x - y \<and>
    dless exact x y = (x < y)"
  apply (intro conjI impI)
  subgoal by (simp add: recordExpenditure_declined recordExpenditure_recorded)
  subgoal by (rule makeInvestment_failed [where c = c and ?in1.0 = ra]) auto
  subgoal by (rule makeInvestment_SIP [where ?in1.0 = ra and ?in2.0 = rb and ?in3.0 = rc]) simp_all
  subgoal by (rule makeInvestment_FD [where ?in1.0 = ra and ?in2.0 = rb]) simp_all
  subgoal by (rule MINIMUM_BALANCE_binary64)
  subgoal by (simp add: binary64_def fsub_def)
  subgoal by (simp add: binary64_def)
  subgoal by (rule MINIMUM_BALANCE_exact)
  subgoal by (simp add: exact_def)
  subgoal by (simp add: exact_def)
  done

text \<open>
  The guard at work on the machine: from 5000 an expenditure of 3000 for rent is
  recorded and leaves 2000; from 2000 an expenditure of 1500 is declined; from 5000 a
  fixed deposit of 3000 for 2 years and a SIP of 3000 for 2 years with 100 a month are
  made; from 2000 a fixed deposit of 1500 fails.
\<close>

theorem balance_guard_law_witness:
  "recordExpenditure (binary64 pow)
     \<lparr>usr = \<lparr>manager = \<lparr>transactions = [], investments = []\<rparr>, balance = Finite 5000\<rparr>,
      stdin = [number_line (binary64 pow) ''3000'' 3000, text_line ''Rent''], stdout = []\<rparr> =
   Some \<lparr>usr = \<lparr>manager = \<lparr>transactions = [Expenditure (Finite 3000) ''Rent''],
                             investments = []\<rparr>,
                 balance = Finite 2000\<rparr>,
         stdin = [], stdout = [ExpenditureRecorded]\<rparr> \<and>
   recordExpenditure (binary64 pow)
     \<lparr>usr = \<lparr>manager = \<lparr>transactions = [Expenditure (Finite 3000) ''Rent''],
                         investments = []\<rparr>,
             balance = Finite 2000\<rparr>,
      stdin = [number_line (binary64 pow) ''1500'' 1500], stdout = []\<rparr> =
   Some \<lparr>usr = \<lparr>manager = \<lparr>transactions = [Expenditure (Finite 3000) ''Rent''],
                             investments = []\<rparr>,
                 balance = Finite 2000\<rparr>,
         stdin = [], stdout = [TransactionDeclined (Finite 1000)]\<rparr> \<and>
   makeInvestment (binary64 pow)
     \<lparr>usr = \<lparr>manager = \<lparr>transactions = [], investments = []\<rparr>, balance = Finite 5000\<rparr>,
      stdin = [number_line (binary64 pow) ''2'' 2, number_line (binary64 pow) ''3000'' 3000,
               number_line (binary64 pow) ''2'' 2],
      stdout = []\<rparr> =
   Some \<lparr>usr = \<lparr>manager = \<lparr>transactions = [], investments = [FD (Finite 3000) 2]\<rparr>,
                 balance = Finite 2000\<rparr>,
         stdin = [], stdout = [FDMade]\<rparr> \<and>
   makeInvestment (binary64 pow)
     \<lparr>usr = \<lparr>manager = \<lparr>transactions = [], investments = []\<rparr>, balance = Finite 5000\<rparr>,
      stdin = [number_line (binary64 pow) ''1'' 1, number_line (binary64 pow) ''3000'' 3000,
               number_line (binary64 pow) ''2'' 2, number_line (binary64 pow) ''100'' 100],
      stdout = []\<rparr> =
   Some \<lparr>usr = \<lparr>manager = \<lparr>transactions = [],
                             investments = [SIP (Finite 3000) 2 (Finite 100)]\<rparr>,
                 balance = Finite 2000\<rparr>,
         stdin = [], stdout = [SIPMade]\<rparr> \<and>
   makeInvestment (binary64 pow)
     \<lparr>usr = \<lparr>manager = \<lparr>transactions = [], investments = []\<rparr>, balance = Finite 2000\<rparr>,
      stdin = [number_line (binary64 pow) ''2'' 2, number_line (binary64 pow) ''1500'' 1500,
               number_line (binary64 pow) ''2'' 2],
      stdout = []\<rparr> =
   Some \<lparr>usr = \<lparr>manager = \<lparr>transactions = [], investments = []\<rparr>, balance = Finite 2000\<rparr>,
         stdin = [number_line (binary64 pow) ''2'' 2],
         stdout = [InvestmentFailed (Finite 1000)]\<rparr>"
proof -
  let ?A = "binary64 pow"
  let ?n = "number_line ?A"
  let ?empty = "\<lparr>transactions = [], investments = []\<rparr> :: double FinanceManager"
  have 1: "recordExpenditure ?A
     \<lparr>usr = \<lparr>manager = ?empty, balance = Finite 5000\<rparr>,
      stdin = [?n ''3000'' 3000, text_line ''Rent''], stdout = []\<rparr> =
   Some \<lparr>usr = \<lparr>manager = \<lparr>transactions = [Expenditure (Finite 3000) ''Rent''],
                             investments = []\<rparr>,
                 balance = Finite 2000\<rparr>,
         stdin = [], stdout = [ExpenditureRecorded]\<rparr>"
    using balance_guard_law [where A = ?A and
        w = "\<lparr>usr = \<lparr>manager = ?empty, balance = Finite 5000\<rparr>,
               stdin = [?n ''3000'' 3000, text_line ''Rent''], stdout = []\<rparr>"
        and a = "Finite 3000" and rest = "[text_line ''Rent'']",
        THEN conjunct1]
    by (simp add: number_line_def text_line_def MINIMUM_BALANCE_def binary64_eval)
  have 2: "recordExpenditure ?A
     \<lparr>usr = \<lparr>manager = \<lparr>transactions = [Expenditure (Finite 3000) ''Rent''],
                         investments = []\<rparr>,
             balance = Finite 2000\<rparr>,
      stdin = [?n ''1500'' 1500], stdout = []\<rparr> =
   Some \<lparr>usr = \<lparr>manager = \<lparr>transactions = [Expenditure (Finite 3000) ''Rent''],
                             investments = []\<rparr>,
                 balance = Finite 2000\<rparr>,
         stdin = [], stdout = [TransactionDeclined (Finite 1000)]\<rparr>"
    using balance_guard_law [where A = ?A and
        w = "\<lparr>usr = \<lparr>manager = \<lparr>transactions = [Expenditure (Finite 3000) ''Rent''],
                                    investments = []\<rparr>,
                        balance = Finite 2000\<rparr>,
               stdin = [?n ''1500'' 1500], stdout = []\<rparr>"
        and a = "Finite 1500" and rest = "[]",
        THEN conjunct1]
    by (simp add: number_line_def MINIMUM_BALANCE_def binary64_eval)
  have 3: "makeInvestment ?A
     \<lparr>usr = \<lparr>manager = ?empty, balance = Finite 5000\<rparr>,
      stdin = [?n ''2'' 2, ?n ''3000'' 3000, ?n ''2'' 2], stdout = []\<rparr> =
   Some \<lparr>usr = \<lparr>manager = \<lparr>transactions = [], investments = [FD (Finite 3000) 2]\<rparr>,
                 balance = Finite 2000\<rparr>,
         stdin = [], stdout = [FDMade]\<rparr>"
    using balance_guard_law [where A = ?A and
        w = "\<lparr>usr = \<lparr>manager = ?empty, balance = Finite 5000\<rparr>,
               stdin = [?n ''2'' 2, ?n ''3000'' 3000, ?n ''2'' 2], stdout = []\<rparr>"
        and ra = "[?n ''3000'' 3000, ?n ''2'' 2]" and p = "Finite 3000"
        and rb = "[?n ''2'' 2]" and d = 2 and rc = "[]",
        THEN conjunct2, THEN conjunct2, THEN conjunct2, THEN conjunct1]
    by (simp add: number_line_def MINIMUM_BALANCE_def binary64_eval)
  have 4: "makeInvestment ?A
     \<lparr>usr = \<lparr>manager = ?empty, balance = Finite 5000\<rparr>,
      stdin = [?n ''1'' 1, ?n ''3000'' 3000, ?n ''2'' 2, ?n ''100'' 100], stdout = []\<rparr> =
   Some \<lparr>usr = \<lparr>manager = \<lparr>transactions = [],
                             investments = [SIP (Finite 3000) 2 (Finite 100)]\<rparr>,
                 balance = Finite 2000\<rparr>,
         stdin = [], stdout = [SIPMade]\<rparr>"
    using balance_guard_law [where A = ?A and
        w = "\<lparr>usr = \<lparr>manager = ?empty, balance = Finite 5000\<rparr>,
               stdin = [?n ''1'' 1, ?n ''3000'' 3000, ?n ''2'' 2, ?n ''100'' 100],
               stdout = []\<rparr>"
        and ra = "[?n ''3000'' 3000, ?n ''2'' 2, ?n ''100'' 100]" and p = "Finite 3000"
        and rb = "[?n ''2'' 2, ?n ''100'' 100]" and d = 2 and rc = "[?n ''100'' 100]"
        and mo = "Finite 100" and rd = "[]",
        THEN conjunct2, THEN conjunct2, THEN conjunct1]
    by (simp add: number_line_def MINIMUM_BALANCE_def binary64_eval)
  have 5: "makeInvestment ?A
     \<lparr>usr = \<lparr>manager = ?empty, balance = Finite 2000\<rparr>,
      stdin = [?n ''2'' 2, ?n ''1500'' 1500, ?n ''2'' 2], stdout = []\<rparr> =
   Some \<lparr>usr = \<lparr>manager = ?empty, balance = Finite 2000\<rparr>,
         stdin = [?n ''2'' 2], stdout = [InvestmentFailed (Finite 1000)]\<rparr>"
    using balance_guard_law [where A = ?A and
        w = "\<lparr>usr = \<lparr>manager = ?empty, balance = Finite 2000\<rparr>,
               stdin = [?n ''2'' 2, ?n ''1500'' 1500, ?n ''2'' 2], stdout = []\<rparr>"
        and c = 2 and ra = "[?n ''1500'' 1500, ?n ''2'' 2]" and p = "Finite 1500"
        and rb = "[?n ''2'' 2]",
        THEN conjunct2, THEN conjunct1]
    by (simp add: number_line_def MINIMUM_BALANCE_def binary64_eval)
  from 1 2 3 4 5 show ?thesis by simp
qed

text \<open>
  C1 as the claim words it fails on the machine. From 5000, an expenditure of
  \<open>2^-43\<close> (typed as 1.1368683772161603e-13) is recorded and the balance stays 5000: it
  does not decrease by the amount. From 1000, an expenditure of \<open>2^-60\<close> (typed as
  8.673617379884035e-19) is recorded although \<open>1000 - 2^-60 < 1000\<close>: the guard tests the
  rounded difference, which is 1000.
\<close>

theorem expenditure_rounded:
  "recordExpenditure (binary64 pow)
     \<lparr>usr = \<lparr>manager = \<lparr>transactions = [], investments = []\<rparr>, balance = Finite 5000\<rparr>,
      stdin = [decimal_line (binary64 pow) ''1.1368683772161603e-13'' 1
                 (11368683772161603 / 10 ^ 29),
               text_line ''Tip''],
      stdout = []\<rparr> =
   Some \<lparr>usr = \<lparr>manager = \<lparr>transactions = [Expenditure (Finite (1 / 2 ^ 43)) ''Tip''],
                             investments = []\<rparr>,
                 balance = Finite 5000\<rparr>,
         stdin = [], stdout = [ExpenditureRecorded]\<rparr> \<and>
   (5000 :: real) - 1 / 2 ^ 43 \<noteq> 5000 \<and>
   recordExpenditure (binary64 pow)
     \<lparr>usr = \<lparr>manager = \<lparr>transactions = [], investments = []\<rparr>, balance = Finite 1000\<rparr>,
      stdin = [decimal_line (binary64 pow) ''8.673617379884035e-19'' 8
                 (8673617379884035 / 10 ^ 34),
               text_line ''Tip''],
      stdout = []\<rparr> =
   Some \<lparr>usr = \<lparr>manager = \<lparr>transactions = [Expenditure (Finite (1 / 2 ^ 60)) ''Tip''],
                             investments = []\<rparr>,
                 balance = Finite 1000\<rparr>,
         stdin = [], stdout = [ExpenditureRecorded]\<rparr> \<and>
   (1000 :: real) - 1 / 2 ^ 60 < 1000"
  by (simp add: recordExpenditure_def addTransaction_def decimal_line_def text_line_def
      MINIMUM_BALANCE_def binary64_eval)



text \<open>
  C3, as the code has it. \<open>SIP::getMaturityAmount\<close>, for principal \<open>p\<close>, duration \<open>d\<close> and
  monthly amount \<open>m\<close>, computes
  \<open>p * (1 + r/12)^(12*d) + m * (((1 + r/12)^(12*d) - 1) / (r/12))\<close> with \<open>r = 0.096\<close>, each
  operation being that of the arithmetic, for every duration whose number of months
  \<open>12 * d\<close> is an \<open>int\<close> (the code computes it in one). In exact arithmetic that is the
  value of the formula, for a duration that is not negative with the ordinary power of
  \<open>12 * d\<close> factors, and a SIP with principal 0, 1 year and 1000 a month matures to
  \<open>1000 * ((1 + 0.008)^12 - 1) / 0.008\<close>. On the machine every operation rounds and the
  power is what the library's \<open>pow\<close> returns for the double nearest to 1.008; for
  principal 0, 1 year and 1000 a month, when \<open>pow\<close> returns one of the two doubles that
  enclose the exact power, the result is a double within \<open>10^-10\<close> of
  \<open>1000 * ((1 + 0.008)^12 - 1) / 0.008\<close>; and where \<open>pow\<close> returns infinity, as the
  correctly rounded one does from 98304 months on, a SIP with principal 0 matures to
  something that is not a number.
\<close>

theorem SIP_maturity_formula:
  fixes A :: "'a arith" and d :: cint
  shows
   "(- (2 ^ 31) \<le> 12 * sint d \<and> 12 * sint d < 2 ^ 31 \<longrightarrow>
      getMaturityAmount A (SIP p d m) =
        dadd A
          (dmul A p
             (dpow A (dadd A (dlit A 1) (ddiv A (dlit A 0.096) (dlit A 12))) (12 * sint d)))
          (dmul A m
             (ddiv A
                (dsub A
                   (dpow A (dadd A (dlit A 1) (ddiv A (dlit A 0.096) (dlit A 12)))
                      (12 * sint d))
                   (dlit A 1))
                (ddiv A (dlit A 0.096) (dlit A 12))))) \<and>
    (- (2 ^ 31) \<le> 12 * sint d \<and> 12 * sint d < 2 ^ 31 \<longrightarrow>
      getMaturityAmount exact (SIP q d k) =
        q * (1 + 0.096 / 12) powi (12 * sint d) +
        k * (((1 + 0.096 / 12) powi (12 * sint d) - 1) / (0.096 / 12))) \<and>
    (0 \<le> sint d \<and> 12 * sint d < 2 ^ 31 \<longrightarrow>
      getMaturityAmount exact (SIP q d k) =
        q * (1 + 0.096 / 12) ^ (12 * nat (sint d)) +
        k * (((1 + 0.096 / 12) ^ (12 * nat (sint d)) - 1) / (0.096 / 12))) \<and>
    getMaturityAmount exact (SIP 0 1 1000) = 1000 * ((1 + 0.008) ^ 12 - 1) / 0.008 \<and>
    (- (2 ^ 31) \<le> 12 * sint d \<and> 12 * sint d < 2 ^ 31 \<longrightarrow>
      getMaturityAmount (binary64 libm_pow) (SIP u d v) =
        fadd (fmul u (libm_pow (Finite (1134907106097365 / 2 ^ 50)) (12 * sint d)))
          (fmul v
             (fdiv (fsub (libm_pow (Finite (1134907106097365 / 2 ^ 50)) (12 * sint d))
                      (Finite 1))
                (Finite (1152921504606847 / 2 ^ 57))))) \<and>
    (libm_pow (Finite (1134907106097365 / 2 ^ 50)) 12 = Finite (4955484931001375 / 2 ^ 52) \<or>
     libm_pow (Finite (1134907106097365 / 2 ^ 50)) 12 = Finite (4955484931001376 / 2 ^ 52) \<longrightarrow>
       (\<exists>y. getMaturityAmount (binary64 libm_pow) (SIP (Finite 0) 1 (Finite 1000)) = Finite y \<and>
            \<bar>y - 1000 * ((1 + 0.008) ^ 12 - 1) / 0.008\<bar> < 1 / 10 ^ 10)) \<and>
    (- (2 ^ 31) \<le> 12 * sint d \<and> 12 * sint d < 2 ^ 31 \<and>
     libm_pow (Finite (1134907106097365 / 2 ^ 50)) (12 * sint d) = PInf \<longrightarrow>
       getMaturityAmount (binary64 libm_pow) (SIP (Finite 0) d v) = NaN) \<and>
    (98304 \<le> n \<longrightarrow> pow (Finite (1134907106097365 / 2 ^ 50)) n = PInf)"
proof (intro conjI impI)
  assume "- (2 ^ 31) \<le> 12 * sint d \<and> 12 * sint d < 2 ^ 31"
  then have "sint (d * 12) = 12 * sint d"
    by (simp add: sint_times_12)
  then show "getMaturityAmount A (SIP p d m) =
        dadd A
          (dmul A p
             (dpow A (dadd A (dlit A 1) (ddiv A (dlit A 0.096) (dlit A 12))) (12 * sint d)))
          (dmul A m
             (ddiv A
                (dsub A
                   (dpow A (dadd A (dlit A 1) (ddiv A (dlit A 0.096) (dlit A 12)))
                      (12 * sint d))
                   (dlit A 1))
                (ddiv A (dlit A 0.096) (dlit A 12))))"
    by (simp add: SIP_ANNUAL_RATE_def Let_def)
next
  assume "- (2 ^ 31) \<le> 12 * sint d \<and> 12 * sint d < 2 ^ 31"
  then have "sint (d * 12) = 12 * sint d"
    by (simp add: sint_times_12)
  then show "getMaturityAmount exact (SIP q d k) =
        q * (1 + 0.096 / 12) powi (12 * sint d) +
        k * (((1 + 0.096 / 12) powi (12 * sint d) - 1) / (0.096 / 12))"
    by (simp add: exact_def SIP_ANNUAL_RATE_def Let_def)
next
  assume d: "0 \<le> sint d \<and> 12 * sint d < 2 ^ 31"
  then have "sint (d * 12) = 12 * sint d"
    by (simp add: sint_times_12)
  moreover from d have "nat (12 * sint d) = 12 * nat (sint d)"
    by (simp add: nat_mult_distrib)
  ultimately have "x powi (sint (d * 12)) = x ^ (12 * nat (sint d))" for x :: real
    using d by (simp add: power_int_def)
  then show "getMaturityAmount exact (SIP q d k) =
        q * (1 + 0.096 / 12) ^ (12 * nat (sint d)) +
        k * (((1 + 0.096 / 12) ^ (12 * nat (sint d)) - 1) / (0.096 / 12))"
    by (simp add: exact_def SIP_ANNUAL_RATE_def Let_def)
next
  show "getMaturityAmount exact (SIP 0 1 1000) = 1000 * ((1 + 0.008) ^ 12 - 1) / 0.008"
    by (simp add: exact_def SIP_ANNUAL_RATE_def Let_def)
next
  assume "- (2 ^ 31) \<le> 12 * sint d \<and> 12 * sint d < 2 ^ 31"
  then have "sint (d * 12) = 12 * sint d"
    by (simp add: sint_times_12)
  then show "getMaturityAmount (binary64 libm_pow) (SIP u d v) =
        fadd (fmul u (libm_pow (Finite (1134907106097365 / 2 ^ 50)) (12 * sint d)))
          (fmul v
             (fdiv (fsub (libm_pow (Finite (1134907106097365 / 2 ^ 50)) (12 * sint d))
                      (Finite 1))
                (Finite (1152921504606847 / 2 ^ 57))))"
    by (simp only: SIP_binary64)
next
  have e: "sint ((1 :: cint) * 12) = 12" by simp
  assume "libm_pow (Finite (1134907106097365 / 2 ^ 50)) 12 = Finite (4955484931001375 / 2 ^ 52) \<or>
     libm_pow (Finite (1134907106097365 / 2 ^ 50)) 12 = Finite (4955484931001376 / 2 ^ 52)"
  then show "\<exists>y. getMaturityAmount (binary64 libm_pow) (SIP (Finite 0) 1 (Finite 1000)) = Finite y \<and>
            \<bar>y - 1000 * ((1 + 0.008) ^ 12 - 1) / 0.008\<bar> < 1 / 10 ^ 10"
  proof
    assume lo: "libm_pow (Finite (1134907106097365 / 2 ^ 50)) 12 =
      Finite (4955484931001375 / 2 ^ 52)"
    have "fadd (fmul (Finite 0) (Finite (4955484931001375 / 2 ^ 52)))
          (fmul (Finite 1000)
             (fdiv (fsub (Finite (4955484931001375 / 2 ^ 52)) (Finite 1))
                (Finite (1152921504606847 / 2 ^ 57)))) =
      Finite (1723805632136837 / 137438953472)"
      by (simp add: binary64_eval)
    with lo have "getMaturityAmount (binary64 libm_pow) (SIP (Finite 0) 1 (Finite 1000)) =
      Finite (1723805632136837 / 137438953472)"
      by (simp only: SIP_binary64 e)
    moreover have "\<bar>1723805632136837 / 137438953472 - 1000 * ((1 + 0.008) ^ 12 - 1) / 0.008\<bar>
        < (1 / 10 ^ 10 :: real)"
      by (simp add: power_divide)
    ultimately show ?thesis by blast
  next
    assume hi: "libm_pow (Finite (1134907106097365 / 2 ^ 50)) 12 =
      Finite (4955484931001376 / 2 ^ 52)"
    have "fadd (fmul (Finite 0) (Finite (4955484931001376 / 2 ^ 52)))
          (fmul (Finite 1000)
             (fdiv (fsub (Finite (4955484931001376 / 2 ^ 52)) (Finite 1))
                (Finite (1152921504606847 / 2 ^ 57)))) =
      Finite (6895222528547363 / 549755813888)"
      by (simp add: binary64_eval)
    with hi have "getMaturityAmount (binary64 libm_pow) (SIP (Finite 0) 1 (Finite 1000)) =
      Finite (6895222528547363 / 549755813888)"
      by (simp only: SIP_binary64 e)
    moreover have "\<bar>6895222528547363 / 549755813888 - 1000 * ((1 + 0.008) ^ 12 - 1) / 0.008\<bar>
        < (1 / 10 ^ 10 :: real)"
      by (simp add: power_divide)
    ultimately show ?thesis by blast
  qed
next
  assume a: "- (2 ^ 31) \<le> 12 * sint d \<and> 12 * sint d < 2 ^ 31 \<and>
     libm_pow (Finite (1134907106097365 / 2 ^ 50)) (12 * sint d) = PInf"
  then have "sint (d * 12) = 12 * sint d"
    by (simp add: sint_times_12)
  with a have "libm_pow (Finite (1134907106097365 / 2 ^ 50)) (sint (d * 12)) = PInf"
    by simp
  then show "getMaturityAmount (binary64 libm_pow) (SIP (Finite 0) d v) = NaN"
    by (simp only: SIP_binary64) simp
next
  assume "98304 \<le> n"
  then show "pow (Finite (1134907106097365 / 2 ^ 50)) n = PInf"
    by (rule SIP_pow_overflow)
qed

text \<open>
  A SIP of 5000 for 1 year with 200 a month: 12 months of growth, in exact arithmetic
  and on the machine with the correctly rounded \<open>pow\<close>, where the result is the double
  8010.16081148439. With that \<open>pow\<close>, a SIP with principal 0 and 1000 a month matures to
  the double 12542.336714518293 after 1 year, and to no number at all after 10000 years.
\<close>

theorem SIP_maturity_formula_witness:
  "0 \<le> sint (1 :: cint) \<and> - (2 ^ 31) \<le> 12 * sint (1 :: cint) \<and>
   12 * sint (1 :: cint) < 2 ^ 31 \<and>
   getMaturityAmount exact (SIP 5000 1 200) =
     5000 * (1 + 0.096 / 12) ^ 12 + 200 * (((1 + 0.096 / 12) ^ 12 - 1) / (0.096 / 12)) \<and>
   pow (Finite (1134907106097365 / 2 ^ 50)) 12 = Finite (4955484931001375 / 2 ^ 52) \<and>
   getMaturityAmount (binary64 pow) (SIP (Finite 5000) 1 (Finite 200)) =
     Finite (8807264952582727 / 1099511627776) \<and>
   getMaturityAmount (binary64 pow) (SIP (Finite 0) 1 (Finite 1000)) =
     Finite (1723805632136837 / 137438953472) \<and>
   - (2 ^ 31) \<le> 12 * sint (10000 :: cint) \<and> 12 * sint (10000 :: cint) < 2 ^ 31 \<and>
   pow (Finite (1134907106097365 / 2 ^ 50)) (12 * sint (10000 :: cint)) = PInf \<and>
   getMaturityAmount (binary64 pow) (SIP (Finite 0) 10000 (Finite 1000)) = NaN"
proof -
  note law = SIP_maturity_formula [where libm_pow = pow]
  have r1: "0 \<le> sint (1 :: cint) \<and> - (2 ^ 31) \<le> 12 * sint (1 :: cint) \<and>
      12 * sint (1 :: cint) < 2 ^ 31"
    by simp
  have 1: "getMaturityAmount exact (SIP 5000 1 200) =
     5000 * (1 + 0.096 / 12) ^ 12 + 200 * (((1 + 0.096 / 12) ^ 12 - 1) / (0.096 / 12))"
    using law [where d = 1 and q = 5000 and k = 200, THEN conjunct2, THEN conjunct2,
        THEN conjunct1]
    by simp
  have p12: "pow (Finite (1134907106097365 / 2 ^ 50)) 12 = Finite (4955484931001375 / 2 ^ 52)"
    by (simp add: binary64_eval power_divide)
  have ev: "fadd (fmul (Finite 5000) (Finite (4955484931001375 / 2 ^ 52)))
          (fmul (Finite 200)
             (fdiv (fsub (Finite (4955484931001375 / 2 ^ 52)) (Finite 1))
                (Finite (1152921504606847 / 2 ^ 57)))) =
      Finite (8807264952582727 / 1099511627776)"
    by (simp add: binary64_eval)
  have e: "12 * sint (1 :: cint) = 12" by simp
  have "getMaturityAmount (binary64 pow) (SIP (Finite 5000) 1 (Finite 200)) =
        fadd (fmul (Finite 5000) (pow (Finite (1134907106097365 / 2 ^ 50)) 12))
          (fmul (Finite 200)
             (fdiv (fsub (pow (Finite (1134907106097365 / 2 ^ 50)) 12) (Finite 1))
                (Finite (1152921504606847 / 2 ^ 57))))"
    using law [where d = 1 and u = "Finite 5000" and v = "Finite 200", THEN conjunct2,
        THEN conjunct2, THEN conjunct2, THEN conjunct2, THEN conjunct1] r1
    by (simp only: e)
  with ev have 2: "getMaturityAmount (binary64 pow) (SIP (Finite 5000) 1 (Finite 200)) =
     Finite (8807264952582727 / 1099511627776)"
    by (simp only: p12)
  have ev0: "fadd (fmul (Finite 0) (Finite (4955484931001375 / 2 ^ 52)))
          (fmul (Finite 1000)
             (fdiv (fsub (Finite (4955484931001375 / 2 ^ 52)) (Finite 1))
                (Finite (1152921504606847 / 2 ^ 57)))) =
      Finite (1723805632136837 / 137438953472)"
    by (simp add: binary64_eval)
  have "getMaturityAmount (binary64 pow) (SIP (Finite 0) 1 (Finite 1000)) =
        fadd (fmul (Finite 0) (pow (Finite (1134907106097365 / 2 ^ 50)) 12))
          (fmul (Finite 1000)
             (fdiv (fsub (pow (Finite (1134907106097365 / 2 ^ 50)) 12) (Finite 1))
                (Finite (1152921504606847 / 2 ^ 57))))"
    using law [where d = 1 and u = "Finite 0" and v = "Finite 1000", THEN conjunct2,
        THEN conjunct2, THEN conjunct2, THEN conjunct2, THEN conjunct1] r1
    by (simp only: e)
  with ev0 have 3: "getMaturityAmount (binary64 pow) (SIP (Finite 0) 1 (Finite 1000)) =
     Finite (1723805632136837 / 137438953472)"
    by (simp only: p12)
  have r2: "- (2 ^ 31) \<le> 12 * sint (10000 :: cint) \<and> 12 * sint (10000 :: cint) < 2 ^ 31"
    by simp
  have e2: "12 * sint (10000 :: cint) = 120000" by simp
  have inf: "pow (Finite (1134907106097365 / 2 ^ 50)) (12 * sint (10000 :: cint)) = PInf"
    using law [where n = 120000, THEN conjunct2, THEN conjunct2, THEN conjunct2,
        THEN conjunct2, THEN conjunct2, THEN conjunct2, THEN conjunct2]
    by (simp only: e2)
  have 4: "getMaturityAmount (binary64 pow) (SIP (Finite 0) 10000 (Finite 1000)) = NaN"
    using law [where d = 10000 and v = "Finite 1000", THEN conjunct2, THEN conjunct2,
        THEN conjunct2, THEN conjunct2, THEN conjunct2, THEN conjunct2, THEN conjunct1]
      r2 inf
    by blast
  from r1 1 p12 2 3 r2 inf 4 show ?thesis by blast
qed

text \<open>
  C3 as the claim words it fails. For a duration of 178956971 years the \<open>int\<close> product
  \<open>12 * d\<close> wraps around to -2147483644, and a SIP of 1000 with 100 a month matures on
  the machine to -12500, where the formula gives a positive number. For a duration of
  10000 years, whose months are an \<open>int\<close>, a SIP with principal 0 and 1000 a month matures
  on the machine to something that is not a number.
\<close>

theorem SIP_maturity_wraps:
  "sint ((178956971 :: cint) * 12) = - 2147483644 \<and>
   getMaturityAmount (binary64 pow) (SIP (Finite 1000) 178956971 (Finite 100)) =
     Finite (- 12500) \<and>
   (0 :: real) < 1000 * (1 + 0.096 / 12) ^ (12 * 178956971) +
     100 * (((1 + 0.096 / 12) ^ (12 * 178956971) - 1) / (0.096 / 12)) \<and>
   getMaturityAmount (binary64 pow) (SIP (Finite 0) 10000 (Finite 1000)) = NaN"
proof -
  have zero: "pow (Finite (1134907106097365 / 2 ^ 50)) (- 2147483644) = Finite 0"
    by (rule SIP_pow_underflow) simp
  have ev: "fadd (fmul (Finite 1000) (Finite 0))
          (fmul (Finite 100)
             (fdiv (fsub (Finite 0) (Finite 1)) (Finite (1152921504606847 / 2 ^ 57)))) =
      Finite (- 12500)"
    by (simp add: binary64_eval)
  have 1: "getMaturityAmount (binary64 pow) (SIP (Finite 1000) 178956971 (Finite 100)) =
     Finite (- 12500)"
    by (simp only: SIP_binary64 SIP_months_wrap zero ev)
  have pos: "0 < 1000 * y + 100 * ((y - 1) / (0.096 / 12))" if "1 \<le> y" for y :: real
  proof -
    from that have "0 \<le> (y - 1) / (0.096 / 12)" by simp
    then have "0 \<le> 100 * ((y - 1) / (0.096 / 12))" by simp
    moreover from that have "0 < 1000 * y" by simp
    ultimately show ?thesis by (rule add_pos_nonneg [rotated])
  qed
  have base: "(1 :: real) \<le> 1 + 0.096 / 12" by simp
  have 2: "(0 :: real) < 1000 * (1 + 0.096 / 12) ^ (12 * 178956971) +
     100 * (((1 + 0.096 / 12) ^ (12 * 178956971) - 1) / (0.096 / 12))"
    by (rule pos, rule one_le_power, rule base)
  have e: "sint ((10000 :: cint) * 12) = 120000" by simp
  have inf: "pow (Finite (1134907106097365 / 2 ^ 50)) 120000 = PInf"
    by (rule SIP_pow_overflow) simp
  have nan: "fadd (fmul (Finite 0) PInf)
          (fmul (Finite 1000)
             (fdiv (fsub PInf (Finite 1)) (Finite (1152921504606847 / 2 ^ 57)))) = NaN"
    by simp
  have 3: "getMaturityAmount (binary64 pow) (SIP (Finite 0) 10000 (Finite 1000)) = NaN"
    by (simp only: SIP_binary64 e inf nan)
  show ?thesis
    by (intro conjI) (rule SIP_months_wrap, rule 1, rule 2, rule 3)
qed

text \<open>
  C4, as the code has it. \<open>FD::getMaturityAmount\<close>, for principal \<open>p\<close> and duration \<open>d\<close>, is
  the product of \<open>p\<close> and the power \<open>(1 + 0.071)^d\<close>, each operation being that of the
  arithmetic: the rate is compounded once a year, not monthly. In exact arithmetic that
  is \<open>p * (1 + 0.071)^d\<close>, for a duration that is not negative the ordinary power with
  \<open>d\<close> factors, and a fixed deposit of 1000 for 5 years matures to \<open>1000 * 1.071^5\<close>, which
  is 1409.117972634351, that is 1409.12 to the cent. On the machine it is the rounded
  product of \<open>p\<close> and what the library's \<open>pow\<close> returns for the double nearest to 1.071;
  for 1000 and 5 years, when \<open>pow\<close> returns one of the two doubles that enclose the exact
  power, the result is a double within \<open>10^-11\<close> of \<open>1000 * 1.071^5\<close>, again 1409.12 to
  the cent; and where \<open>pow\<close> returns infinity, as the correctly rounded one does from
  16384 years on, the result is infinity for the principal 1000 and not a number for
  the principal 0.
\<close>

theorem FD_maturity_formula:
  fixes A :: "'a arith" and d :: cint
  shows
   "getMaturityAmount A (FD p d) =
      dmul A p (dpow A (dadd A (dlit A 1) (dlit A 0.071)) (sint d)) \<and>
    getMaturityAmount exact (FD q d) = q * (1 + 0.071) powi (sint d) \<and>
    (0 \<le> sint d \<longrightarrow> getMaturityAmount exact (FD q d) = q * (1 + 0.071) ^ nat (sint d)) \<and>
    getMaturityAmount exact (FD 1000 5) = 1000 * 1.071 ^ 5 \<and>
    getMaturityAmount exact (FD 1000 5) = 1409.117972634351 \<and>
    \<bar>getMaturityAmount exact (FD 1000 5) - 1409.12\<bar> < 0.005 \<and>
    getMaturityAmount (binary64 libm_pow) (FD u d) =
      fmul u (libm_pow (Finite (4823355200913801 / 2 ^ 52)) (sint d)) \<and>
    (libm_pow (Finite (4823355200913801 / 2 ^ 52)) 5 = Finite (6346103176477130 / 2 ^ 52) \<or>
     libm_pow (Finite (4823355200913801 / 2 ^ 52)) 5 = Finite (6346103176477131 / 2 ^ 52) \<longrightarrow>
       (\<exists>y. getMaturityAmount (binary64 libm_pow) (FD (Finite 1000) 5) = Finite y \<and>
            \<bar>y - 1000 * 1.071 ^ 5\<bar> < 1 / 10 ^ 11 \<and> \<bar>y - 1409.12\<bar> < 0.005)) \<and>
    (libm_pow (Finite (4823355200913801 / 2 ^ 52)) (sint d) = PInf \<longrightarrow>
       getMaturityAmount (binary64 libm_pow) (FD (Finite 1000) d) = PInf \<and>
       getMaturityAmount (binary64 libm_pow) (FD (Finite 0) d) = NaN) \<and>
    (16384 \<le> n \<longrightarrow> pow (Finite (4823355200913801 / 2 ^ 52)) n = PInf)"
proof (intro conjI impI)
  show "getMaturityAmount A (FD p d) =
      dmul A p (dpow A (dadd A (dlit A 1) (dlit A 0.071)) (sint d))"
    by (simp add: FD_ANNUAL_RATE_def)
  show "getMaturityAmount exact (FD q d) = q * (1 + 0.071) powi (sint d)"
    by (simp add: FD_ANNUAL_RATE_def exact_def)
  show "getMaturityAmount exact (FD q d) = q * (1 + 0.071) ^ nat (sint d)" if "0 \<le> sint d"
    using that by (simp add: FD_ANNUAL_RATE_def exact_def power_int_def)
  show "getMaturityAmount exact (FD 1000 5) = 1000 * 1.071 ^ 5"
    by (simp add: FD_ANNUAL_RATE_def exact_def)
  show "getMaturityAmount exact (FD 1000 5) = 1409.117972634351"
    by (simp add: FD_ANNUAL_RATE_def exact_def power_divide)
  show "\<bar>getMaturityAmount exact (FD 1000 5) - 1409.12\<bar> < 0.005"
    by (simp add: FD_ANNUAL_RATE_def exact_def power_divide)
  show "getMaturityAmount (binary64 libm_pow) (FD u d) =
      fmul u (libm_pow (Finite (4823355200913801 / 2 ^ 52)) (sint d))"
    by (rule FD_binary64)
  show "\<exists>y. getMaturityAmount (binary64 libm_pow) (FD (Finite 1000) 5) = Finite y \<and>
            \<bar>y - 1000 * 1.071 ^ 5\<bar> < 1 / 10 ^ 11 \<and> \<bar>y - 1409.12\<bar> < 0.005"
    if "libm_pow (Finite (4823355200913801 / 2 ^ 52)) 5 = Finite (6346103176477130 / 2 ^ 52) \<or>
     libm_pow (Finite (4823355200913801 / 2 ^ 52)) 5 = Finite (6346103176477131 / 2 ^ 52)"
    using that
  proof
    assume lo: "libm_pow (Finite (4823355200913801 / 2 ^ 52)) 5 =
      Finite (6346103176477130 / 2 ^ 52)"
    have "fmul (Finite 1000) (Finite (6346103176477130 / 2 ^ 52)) =
      Finite (6197366383278447 / 4398046511104)"
      by (simp add: binary64_eval)
    with lo have "getMaturityAmount (binary64 libm_pow) (FD (Finite 1000) 5) =
      Finite (6197366383278447 / 4398046511104)"
      by (simp only: FD_binary64) simp
    moreover have "\<bar>6197366383278447 / 4398046511104 - 1000 * 1.071 ^ 5\<bar> < (1 / 10 ^ 11 :: real)"
      by (simp add: power_divide)
    moreover have "\<bar>6197366383278447 / 4398046511104 - 1409.12\<bar> < (0.005 :: real)"
      by simp
    ultimately show ?thesis by blast
  next
    assume hi: "libm_pow (Finite (4823355200913801 / 2 ^ 52)) 5 =
      Finite (6346103176477131 / 2 ^ 52)"
    have "fmul (Finite 1000) (Finite (6346103176477131 / 2 ^ 52)) =
      Finite (387335398954903 / 274877906944)"
      by (simp add: binary64_eval)
    with hi have "getMaturityAmount (binary64 libm_pow) (FD (Finite 1000) 5) =
      Finite (387335398954903 / 274877906944)"
      by (simp only: FD_binary64) simp
    moreover have "\<bar>387335398954903 / 274877906944 - 1000 * 1.071 ^ 5\<bar> < (1 / 10 ^ 11 :: real)"
      by (simp add: power_divide)
    moreover have "\<bar>387335398954903 / 274877906944 - 1409.12\<bar> < (0.005 :: real)"
      by simp
    ultimately show ?thesis by blast
  qed
  show "getMaturityAmount (binary64 libm_pow) (FD (Finite 1000) d) = PInf"
    if "libm_pow (Finite (4823355200913801 / 2 ^ 52)) (sint d) = PInf"
    using that by (simp only: FD_binary64) (simp add: signed_inf_def)
  show "getMaturityAmount (binary64 libm_pow) (FD (Finite 0) d) = NaN"
    if "libm_pow (Finite (4823355200913801 / 2 ^ 52)) (sint d) = PInf"
    using that by (simp only: FD_binary64) simp
  show "pow (Finite (4823355200913801 / 2 ^ 52)) n = PInf" if "16384 \<le> n"
    using that by (rule FD_pow_overflow)
qed

text \<open>
  A fixed deposit of 3000 for 2 years matures to \<open>3000 * 1.071^2\<close>, which is 3441.123, in
  exact arithmetic, and to the double nearest to it on the machine. With the correctly
  rounded \<open>pow\<close>, 1000 for 5 years matures to the double 1409.1179726343507, and 1000 for
  20000 years to infinity.
\<close>

theorem FD_maturity_formula_witness:
  "0 \<le> sint (2 :: cint) \<and>
   getMaturityAmount exact (FD 3000 2) = 3000 * 1.071 ^ 2 \<and>
   getMaturityAmount exact (FD 3000 2) = 3441.123 \<and>
   getMaturityAmount (binary64 pow) (FD (Finite 3000) 2) =
     Finite (7567109502214865 / 2199023255552) \<and>
   pow (Finite (4823355200913801 / 2 ^ 52)) 5 = Finite (6346103176477131 / 2 ^ 52) \<and>
   getMaturityAmount (binary64 pow) (FD (Finite 1000) 5) =
     Finite (387335398954903 / 274877906944) \<and>
   pow (Finite (4823355200913801 / 2 ^ 52)) (sint (20000 :: cint)) = PInf \<and>
   getMaturityAmount (binary64 pow) (FD (Finite 1000) 20000) = PInf"
proof -
  note law = FD_maturity_formula [where libm_pow = pow]
  have 1: "0 \<le> sint (2 :: cint) \<and>
      getMaturityAmount exact (FD 3000 2) = 3000 * 1.071 ^ 2 \<and>
      getMaturityAmount exact (FD 3000 2) = 3441.123"
    using law [where d = 2 and q = 3000, THEN conjunct2, THEN conjunct2, THEN conjunct1]
    by (simp add: power_divide)
  have p2: "pow (Finite (4823355200913801 / 2 ^ 52)) 2 = Finite (5165813420178681 / 2 ^ 52)"
    by (simp add: binary64_eval power_divide)
  have m2: "fmul (Finite 3000) (Finite (5165813420178681 / 2 ^ 52)) =
      Finite (7567109502214865 / 2199023255552)"
    by (simp add: binary64_eval)
  have 2: "getMaturityAmount (binary64 pow) (FD (Finite 3000) 2) =
      Finite (7567109502214865 / 2199023255552)"
    using law [where d = 2 and u = "Finite 3000", THEN conjunct2, THEN conjunct2,
        THEN conjunct2, THEN conjunct2, THEN conjunct2, THEN conjunct2, THEN conjunct1]
      p2 m2
    by (simp del: pow.simps fmul.simps)
  have p5: "pow (Finite (4823355200913801 / 2 ^ 52)) 5 = Finite (6346103176477131 / 2 ^ 52)"
    by (simp add: binary64_eval power_divide)
  have m5: "fmul (Finite 1000) (Finite (6346103176477131 / 2 ^ 52)) =
      Finite (387335398954903 / 274877906944)"
    by (simp add: binary64_eval)
  have "getMaturityAmount (binary64 pow) (FD (Finite 1000) 5) =
      fmul (Finite 1000) (pow (Finite (4823355200913801 / 2 ^ 52)) 5)"
    by (simp only: FD_binary64) simp
  with p5 m5 have v5: "getMaturityAmount (binary64 pow) (FD (Finite 1000) 5) =
      Finite (387335398954903 / 274877906944)"
    by (simp del: pow.simps fmul.simps)
  from law [THEN conjunct2, THEN conjunct2, THEN conjunct2, THEN conjunct2, THEN conjunct2,
      THEN conjunct2, THEN conjunct2, THEN conjunct1] p5
  have "\<exists>y. getMaturityAmount (binary64 pow) (FD (Finite 1000) 5) = Finite y \<and>
            \<bar>y - 1000 * 1.071 ^ 5\<bar> < 1 / 10 ^ 11 \<and> \<bar>y - 1409.12\<bar> < 0.005"
    by blast
  have e: "sint (20000 :: cint) = 20000" by simp
  have inf: "pow (Finite (4823355200913801 / 2 ^ 52)) (sint (20000 :: cint)) = PInf"
    using law [where n = 20000, THEN conjunct2, THEN conjunct2, THEN conjunct2,
        THEN conjunct2, THEN conjunct2, THEN conjunct2, THEN conjunct2, THEN conjunct2,
        THEN conjunct2]
    by (simp only: e)
  have 3: "getMaturityAmount (binary64 pow) (FD (Finite 1000) 20000) = PInf"
    using law [where d = 20000, THEN conjunct2, THEN conjunct2, THEN conjunct2,
        THEN conjunct2, THEN conjunct2, THEN conjunct2, THEN conjunct2, THEN conjunct2,
        THEN conjunct1] inf
    by blast
  from 1 2 p5 v5 inf 3 show ?thesis by blast
qed

text \<open>
  C4 as the claim words it fails. On the machine a fixed deposit of 1000 for 5 years
  matures to the double 1409.1179726343507, which is more than half a unit away from
  1409.68 and is not the number \<open>1000 * 1.071^5\<close> either; the exact product is as far from
  1409.68; and a fixed deposit of 1000 for 20000 years matures to infinity, which
  is not \<open>1000 * 1.071^20000\<close>.
\<close>

theorem FD_maturity_not_1409_68:
  "getMaturityAmount (binary64 pow) (FD (Finite 1000) 5) =
     Finite (387335398954903 / 274877906944) \<and>
   \<not> \<bar>387335398954903 / 274877906944 - 1409.68\<bar> \<le> (0.5 :: real) \<and>
   (387335398954903 / 274877906944 :: real) \<noteq> 1000 * 1.071 ^ 5 \<and>
   \<not> \<bar>getMaturityAmount exact (FD 1000 5) - 1409.68\<bar> \<le> 0.5 \<and>
   getMaturityAmount (binary64 pow) (FD (Finite 1000) 20000) = PInf"
proof -
  have p5: "pow (Finite (4823355200913801 / 2 ^ 52)) 5 = Finite (6346103176477131 / 2 ^ 52)"
    by (simp add: binary64_eval power_divide)
  have m5: "fmul (Finite 1000) (Finite (6346103176477131 / 2 ^ 52)) =
      Finite (387335398954903 / 274877906944)"
    by (simp add: binary64_eval)
  have "getMaturityAmount (binary64 pow) (FD (Finite 1000) 5) =
      fmul (Finite 1000) (pow (Finite (4823355200913801 / 2 ^ 52)) 5)"
    by (simp only: FD_binary64) simp
  with p5 m5 have 1: "getMaturityAmount (binary64 pow) (FD (Finite 1000) 5) =
      Finite (387335398954903 / 274877906944)"
    by (simp del: pow.simps fmul.simps)
  have 2: "\<not> \<bar>387335398954903 / 274877906944 - 1409.68\<bar> \<le> (0.5 :: real)"
    by simp
  have 3: "(387335398954903 / 274877906944 :: real) \<noteq> 1000 * 1.071 ^ 5"
    by (simp add: power_divide)
  have 4: "\<not> \<bar>getMaturityAmount exact (FD 1000 5) - 1409.68\<bar> \<le> 0.5"
    by (simp add: FD_ANNUAL_RATE_def exact_def power_divide)
  have e: "sint (20000 :: cint) = 20000" by simp
  have "pow (Finite (4823355200913801 / 2 ^ 52)) (sint (20000 :: cint)) = PInf"
    by (simp only: e) (rule FD_pow_overflow, simp)
  then have 5: "getMaturityAmount (binary64 pow) (FD (Finite 1000) 20000) = PInf"
    by (simp only: FD_binary64) (simp add: signed_inf_def)
  from 1 2 3 4 5 show ?thesis by blast
qed

text \<open>
  C5, as the code has it. \<open>recordIncome\<close> has no failure branch: once the amount \<open>a\<close> has
  been read (\<open>a \<ge> 0\<close> or not) it returns with the one record \<open>Income a\<close> (carrying the
  description read next) appended to the transactions, with the investments as they were,
  with the success message written, and with the balance replaced by the sum
  \<open>balance + a\<close> as the arithmetic computes it. On the machine that is the exact sum
  rounded to the nearest double, so the balance rises by exactly \<open>a\<close> only when the sum
  is itself a double; in exact arithmetic it is the exact sum.
\<close>

theorem recordIncome_adds:
  fixes A :: "'a arith" and w :: "'a world"
  shows
   "(dleq A (dlit A 0) a \<and> getNumericInput parse_double (stdin w) = Some (a, rest) \<longrightarrow>
       recordIncome A w =
         Some \<lparr>usr = \<lparr>manager = \<lparr>transactions = transactions (manager (usr w)) @
                                          [Income a (fst (getStringInput rest))],
                                    investments = investments (manager (usr w))\<rparr>,
                       balance = dadd A (balance (usr w)) a\<rparr>,
               stdin = snd (getStringInput rest),
               stdout = stdout w @ [IncomeRecorded]\<rparr> \<and>
       getAmount (Income a (fst (getStringInput rest))) = a) \<and>
    dadd (binary64 libm_pow) (Finite x) (Finite y) = round64 (x + y) \<and>
    dleq (binary64 libm_pow) (Finite x) (Finite y) = (x \<le> y) \<and>
    dadd exact x y = x + y \<and>
    dleq exact x y = (x \<le> y)"
  apply (intro conjI impI)
  subgoal by (simp add: recordIncome_reads)
  subgoal by simp
  subgoal by (simp add: binary64_def)
  subgoal by (simp add: binary64_def)
  subgoal by (simp add: exact_def)
  subgoal by (simp add: exact_def)
  done

text \<open>
  On the machine, from 5000, a salary of 2500 gives 7500 and the record
  \<open>Income 2500 ''Salary''\<close>; the investments are as they were.
\<close>

theorem recordIncome_adds_witness:
  "dleq (binary64 pow) (dlit (binary64 pow) 0) (Finite 2500) \<and>
   recordIncome (binary64 pow)
     \<lparr>usr = \<lparr>manager = \<lparr>transactions = [], investments = [FD (Finite 100) 1]\<rparr>,
             balance = Finite 5000\<rparr>,
      stdin = [number_line (binary64 pow) ''2500'' 2500, text_line ''Salary''],
      stdout = []\<rparr> =
   Some \<lparr>usr = \<lparr>manager = \<lparr>transactions = [Income (Finite 2500) ''Salary''],
                             investments = [FD (Finite 100) 1]\<rparr>,
                 balance = Finite 7500\<rparr>,
         stdin = [], stdout = [IncomeRecorded]\<rparr>"
  using recordIncome_adds [where A = "binary64 pow" and
      w = "\<lparr>usr = \<lparr>manager = \<lparr>transactions = [], investments = [FD (Finite 100) 1]\<rparr>,
                   balance = Finite 5000\<rparr>,
            stdin = [number_line (binary64 pow) ''2500'' 2500, text_line ''Salary''],
            stdout = []\<rparr>"
      and a = "Finite 2500" and rest = "[text_line ''Salary'']", THEN conjunct1]
  by (simp add: number_line_def text_line_def binary64_eval)

text \<open>
  C5 as the claim words it fails on the machine. From 5000, an income of \<open>10^17\<close> leaves
  the balance 100000000000004992, which is 8 short of \<open>5000 + 10^17\<close>. From 5000, an
  income of 0.1 leaves a balance that is not \<open>5000 + a\<close> for the amount \<open>a\<close> recorded (the
  double nearest to 0.1): the balance rises by more than \<open>a\<close>.
\<close>

theorem income_rounded:
  "recordIncome (binary64 pow)
     \<lparr>usr = \<lparr>manager = \<lparr>transactions = [], investments = []\<rparr>, balance = Finite 5000\<rparr>,
      stdin = [\<lparr>line_text = ''100000000000000000'', parse_int = None,
                parse_double = Some (dlit (binary64 pow) (10 ^ 17))\<rparr>,
               text_line ''Prize''],
      stdout = []\<rparr> =
   Some \<lparr>usr = \<lparr>manager = \<lparr>transactions = [Income (Finite (10 ^ 17)) ''Prize''],
                             investments = []\<rparr>,
                 balance = Finite 100000000000004992\<rparr>,
         stdin = [], stdout = [IncomeRecorded]\<rparr> \<and>
   (5000 :: real) + 10 ^ 17 \<noteq> 100000000000004992 \<and>
   recordIncome (binary64 pow)
     \<lparr>usr = \<lparr>manager = \<lparr>transactions = [], investments = []\<rparr>, balance = Finite 5000\<rparr>,
      stdin = [decimal_line (binary64 pow) ''0.1'' 0 (1 / 10), text_line ''Coin''],
      stdout = []\<rparr> =
   Some \<lparr>usr = \<lparr>manager = \<lparr>transactions =
                               [Income (Finite (3602879701896397 / 36028797018963968)) ''Coin''],
                             investments = []\<rparr>,
                 balance = Finite (2748834045021389 / 549755813888)\<rparr>,
         stdin = [], stdout = [IncomeRecorded]\<rparr> \<and>
   (5000 :: real) + 3602879701896397 / 36028797018963968 < 2748834045021389 / 549755813888"
  by (simp add: recordIncome_def addTransaction_def decimal_line_def text_line_def
      binary64_eval)

text \<open>
  C6. After any sequence of \<open>addTransaction\<close> and \<open>addInvestment\<close> calls, in any
  interleaving, \<open>getTransactions\<close> is what it was before followed by exactly the
  transactions added, in the order of the calls, and \<open>getInvestments\<close> likewise for the
  investments; on a new \<open>FinanceManager\<close> they are exactly the records added.
\<close>

theorem ledger_insertion_order:
  "getTransactions (apply_ops ops FinanceManager_init) = added_transactions ops \<and>
   getInvestments (apply_ops ops FinanceManager_init) = added_investments ops \<and>
   getTransactions (apply_ops ops m) = getTransactions m @ added_transactions ops \<and>
   getInvestments (apply_ops ops m) = getInvestments m @ added_investments ops"
  by (simp add: getTransactions_def getInvestments_def apply_ops_transactions
      apply_ops_investments FinanceManager_init_def)

text \<open>
  C7, as the code has it. The program stores the amount, the principal and the duration
  exactly as they are read and never tests their sign. So the sign conditions on the
  ledger (\<open>amount \<ge> 0\<close>, \<open>principal \<ge> 0\<close>, \<open>durationYears \<ge> 0\<close>) are kept by every pass of
  the menu, and hold when \<open>run\<close> and \<open>main\<close> return, provided that no line of the input
  reads as a negative number. This holds in any arithmetic.
\<close>

theorem ledger_nonneg_preserved:
  fixes A :: "'a arith" and w :: "'a world"
  shows
   "(list_all (line_nonneg A) (stdin w) \<and> ledger_nonneg A (manager (usr w)) \<and>
     menu_switch A c w = Some w' \<longrightarrow>
       ledger_nonneg A (manager (usr w')) \<and> list_all (line_nonneg A) (stdin w')) \<and>
    (list_all (line_nonneg A) (stdin w) \<and> ledger_nonneg A (manager (usr w)) \<and>
     run A w = Some w' \<longrightarrow>
       ledger_nonneg A (manager (usr w'))) \<and>
    (list_all (line_nonneg A) input \<and> main A input = Some (code, w') \<longrightarrow>
       ledger_nonneg A (manager (usr w')))"
proof (intro conjI)
  show "list_all (line_nonneg A) (stdin w) \<and> ledger_nonneg A (manager (usr w)) \<and>
     menu_switch A c w = Some w' \<longrightarrow>
       ledger_nonneg A (manager (usr w')) \<and> list_all (line_nonneg A) (stdin w')"
    using menu_switch_nonneg [of A w c w'] by blast
next
  show "list_all (line_nonneg A) (stdin w) \<and> ledger_nonneg A (manager (usr w)) \<and>
     run A w = Some w' \<longrightarrow>
       ledger_nonneg A (manager (usr w'))"
    using while_loop_nonneg [of A w "- 1" w'] by (simp add: run_def)
next
  let ?w0 = "\<lparr>usr = User_init (dlit A 5000), stdin = input, stdout = [Welcome]\<rparr>"
  have "ledger_nonneg A (manager (usr ?w0))"
    by (simp add: User_init_def FinanceManager_init_def ledger_nonneg_def)
  moreover have "while_loop A (- 1) ?w0 = Some w'" if "main A input = Some (code, w')"
    using that by (simp add: main_def run_def split: option.splits)
  ultimately show "list_all (line_nonneg A) input \<and> main A input = Some (code, w') \<longrightarrow>
       ledger_nonneg A (manager (usr w'))"
    using while_loop_nonneg [of A ?w0 "- 1" w'] by simp
qed

text \<open>
  A session without negative numbers: an income of 2500, then a SIP of 1000 for 2 years
  with 100 a month, then exit. The ledger it leaves meets the sign conditions.
\<close>

theorem ledger_nonneg_preserved_witness:
  "list_all (line_nonneg exact)
     [number_line exact ''1'' 1, number_line exact ''2500'' 2500, text_line ''Salary'',
      number_line exact ''3'' 3, number_line exact ''1'' 1, number_line exact ''1000'' 1000,
      number_line exact ''2'' 2, number_line exact ''100'' 100, number_line exact ''0'' 0] \<and>
   main exact
     [number_line exact ''1'' 1, number_line exact ''2500'' 2500, text_line ''Salary'',
      number_line exact ''3'' 3, number_line exact ''1'' 1, number_line exact ''1000'' 1000,
      number_line exact ''2'' 2, number_line exact ''100'' 100, number_line exact ''0'' 0] =
   Some (0, \<lparr>usr = \<lparr>manager = \<lparr>transactions = [Income 2500 ''Salary''],
                                      investments = [SIP 1000 2 100]\<rparr>,
                         balance = 6500\<rparr>,
              stdin = [], stdout = [Welcome, IncomeRecorded, SIPMade, Goodbye]\<rparr>) \<and>
   ledger_nonneg exact
     \<lparr>transactions = [Income 2500 ''Salary''], investments = [SIP 1000 2 100]\<rparr>"
proof -
  let ?input = "[number_line exact ''1'' 1, number_line exact ''2500'' 2500,
      text_line ''Salary'', number_line exact ''3'' 3, number_line exact ''1'' 1,
      number_line exact ''1000'' 1000, number_line exact ''2'' 2,
      number_line exact ''100'' 100, number_line exact ''0'' 0]"
  let ?w' = "\<lparr>usr = \<lparr>manager = \<lparr>transactions = [Income 2500 ''Salary''],
                                      investments = [SIP 1000 2 100]\<rparr>,
                         balance = 6500\<rparr>,
              stdin = [], stdout = [Welcome, IncomeRecorded, SIPMade, Goodbye]\<rparr>"
  have nn: "list_all (line_nonneg exact) ?input"
    by (simp add: line_nonneg_def number_line_def text_line_def exact_def)
  have m: "main exact ?input = Some (0, ?w')"
    by (simp add: main_def run_unfold menu_switch_def recordIncome_def makeInvestment_def
        addTransaction_def addInvestment_def User_init_def FinanceManager_init_def
        MINIMUM_BALANCE_def number_line_def text_line_def exact_def)
  from ledger_nonneg_preserved [where A = exact and w' = ?w' and input = ?input and code = 0]
    nn m
  have "ledger_nonneg exact (manager (usr ?w'))"
    by blast
  with nn m show ?thesis by simp
qed

text \<open>
  C7 as the claim words it fails. From the start of \<open>main\<close>, an income of -5 and a fixed
  deposit of -100 for -2 years are both accepted: the ledger then holds a transaction
  with a negative amount and an investment with a negative principal and a negative
  duration. The session runs the same on the machine and in exact arithmetic.
\<close>

theorem negative_records_stored:
  "main (binary64 pow)
     [number_line (binary64 pow) ''1'' 1, number_line (binary64 pow) ''-5'' (- 5),
      text_line ''Refund'', number_line (binary64 pow) ''3'' 3,
      number_line (binary64 pow) ''2'' 2, number_line (binary64 pow) ''-100'' (- 100),
      number_line (binary64 pow) ''-2'' (- 2), number_line (binary64 pow) ''0'' 0] =
   Some (0, \<lparr>usr = \<lparr>manager = \<lparr>transactions = [Income (Finite (- 5)) ''Refund''],
                                      investments = [FD (Finite (- 100)) (- 2)]\<rparr>,
                         balance = Finite 5095\<rparr>,
              stdin = [], stdout = [Welcome, IncomeRecorded, FDMade, Goodbye]\<rparr>) \<and>
   flt (getAmount (Income (Finite (- 5)) ''Refund'')) (Finite 0) \<and>
   flt (getPrincipal (FD (Finite (- 100)) (- 2))) (Finite 0) \<and>
   sint (durationYears (FD (Finite (- 100)) (- 2))) < 0 \<and>
   \<not> ledger_nonneg (binary64 pow)
       \<lparr>transactions = [Income (Finite (- 5)) ''Refund''],
        investments = [FD (Finite (- 100)) (- 2)]\<rparr> \<and>
   main exact
     [number_line exact ''1'' 1, number_line exact ''-5'' (- 5), text_line ''Refund'',
      number_line exact ''3'' 3, number_line exact ''2'' 2,
      number_line exact ''-100'' (- 100), number_line exact ''-2'' (- 2),
      number_line exact ''0'' 0] =
   Some (0, \<lparr>usr = \<lparr>manager = \<lparr>transactions = [Income (- 5) ''Refund''],
                                      investments = [FD (- 100) (- 2)]\<rparr>,
                         balance = 5095\<rparr>,
              stdin = [], stdout = [Welcome, IncomeRecorded, FDMade, Goodbye]\<rparr>) \<and>
   getAmount (Income (- 5 :: real) ''Refund'') < 0 \<and>
   getPrincipal (FD (- 100 :: real) (- 2)) < 0 \<and>
   sint (durationYears (FD (- 100 :: real) (- 2))) < 0 \<and>
   \<not> ledger_nonneg exact
       \<lparr>transactions = [Income (- 5) ''Refund''], investments = [FD (- 100) (- 2)]\<rparr>"
proof -
  have machine: "main (binary64 pow)
     [number_line (binary64 pow) ''1'' 1, number_line (binary64 pow) ''-5'' (- 5),
      text_line ''Refund'', number_line (binary64 pow) ''3'' 3,
      number_line (binary64 pow) ''2'' 2, number_line (binary64 pow) ''-100'' (- 100),
      number_line (binary64 pow) ''-2'' (- 2), number_line (binary64 pow) ''0'' 0] =
   Some (0, \<lparr>usr = \<lparr>manager = \<lparr>transactions = [Income (Finite (- 5)) ''Refund''],
                                      investments = [FD (Finite (- 100)) (- 2)]\<rparr>,
                         balance = Finite 5095\<rparr>,
              stdin = [], stdout = [Welcome, IncomeRecorded, FDMade, Goodbye]\<rparr>)"
    by (simp add: main_def run_unfold menu_switch_def recordIncome_def makeInvestment_def
        addTransaction_def addInvestment_def User_init_def FinanceManager_init_def
        MINIMUM_BALANCE_def number_line_def text_line_def binary64_eval)
  have machine_sign: "\<not> ledger_nonneg (binary64 pow)
       \<lparr>transactions = [Income (Finite (- 5)) ''Refund''],
        investments = [FD (Finite (- 100)) (- 2)]\<rparr>"
    by (simp add: ledger_nonneg_def Transaction_nonneg_def Investment_nonneg_def
        binary64_eval)
  have ideal: "main exact
     [number_line exact ''1'' 1, number_line exact ''-5'' (- 5), text_line ''Refund'',
      number_line exact ''3'' 3, number_line exact ''2'' 2,
      number_line exact ''-100'' (- 100), number_line exact ''-2'' (- 2),
      number_line exact ''0'' 0] =
   Some (0, \<lparr>usr = \<lparr>manager = \<lparr>transactions = [Income (- 5) ''Refund''],
                                      investments = [FD (- 100) (- 2)]\<rparr>,
                         balance = 5095\<rparr>,
              stdin = [], stdout = [Welcome, IncomeRecorded, FDMade, Goodbye]\<rparr>)"
    by (simp add: main_def run_unfold menu_switch_def recordIncome_def makeInvestment_def
        addTransaction_def addInvestment_def User_init_def FinanceManager_init_def
        MINIMUM_BALANCE_def number_line_def text_line_def exact_def)
  have ideal_sign: "\<not> ledger_nonneg exact
       \<lparr>transactions = [Income (- 5) ''Refund''], investments = [FD (- 100) (- 2)]\<rparr>"
    by (simp add: ledger_nonneg_def Transaction_nonneg_def Investment_nonneg_def exact_def)
  from machine machine_sign ideal ideal_sign show ?thesis by simp
qed

text \<open>
  C8. In any arithmetic, one pass of the menu loop reads a choice \<open>c\<close> and runs the \<open>switch\<close>. When \<open>c\<close> is
  4, 5 or 6 (the three reports), when \<open>c\<close> is none of 0 to 6 (an invalid option), when
  \<open>c\<close> is 2 and the expenditure breaches the guard, and when \<open>c\<close> is 3 and the investment
  is cancelled (type 0), breaches the guard, or has a type other than 1 and 2, the
  \<open>switch\<close> returns with the user (balance, transactions, investments) exactly as it
  was, and the loop goes on from there: the run A from before the pass is the run A from
  after it.
\<close>

theorem reports_and_rejections_frame:
  fixes A :: "'a arith" and w :: "'a world"
  shows
   "getNumericInput parse_int (stdin w) = Some (c, in0) \<and>
    (c = 4 \<or> c = 5 \<or> c = 6 \<or>
     (c \<noteq> 0 \<and> c \<noteq> 1 \<and> c \<noteq> 2 \<and> c \<noteq> 3 \<and> c \<noteq> 4 \<and> c \<noteq> 5 \<and> c \<noteq> 6) \<or>
     (c = 2 \<and> getNumericInput parse_double in0 = Some (a, in1) \<and>
        dless A (dsub A (balance (usr w)) a) (MINIMUM_BALANCE A)) \<or>
     (c = 3 \<and> getNumericInput parse_int in0 = Some (0, in1)) \<or>
     (c = 3 \<and> getNumericInput parse_int in0 = Some (t, in1) \<and> t \<noteq> 0 \<and>
        getNumericInput parse_double in1 = Some (a, in2) \<and>
        dless A (dsub A (balance (usr w)) a) (MINIMUM_BALANCE A)) \<or>
     (c = 3 \<and> getNumericInput parse_int in0 = Some (t, in1) \<and> t \<noteq> 0 \<and> t \<noteq> 1 \<and> t \<noteq> 2 \<and>
        getNumericInput parse_double in1 = Some (a, in2) \<and>
        \<not> dless A (dsub A (balance (usr w)) a) (MINIMUM_BALANCE A) \<and>
        getNumericInput parse_int in2 = Some (d, in3))) \<longrightarrow>
    (\<exists>w' :: 'a world. menu_switch A c (w\<lparr>stdin := in0\<rparr>) = Some w' \<and>
       usr w' = usr w \<and>
       balance (usr w') = balance (usr w) \<and>
       transactions (manager (usr w')) = transactions (manager (usr w)) \<and>
       investments (manager (usr w')) = investments (manager (usr w)) \<and>
       run A w = run A w')"
proof (intro impI, elim conjE)
  assume rd: "getNumericInput parse_int (stdin w) = Some (c, in0)"
  assume cases: "c = 4 \<or> c = 5 \<or> c = 6 \<or>
     (c \<noteq> 0 \<and> c \<noteq> 1 \<and> c \<noteq> 2 \<and> c \<noteq> 3 \<and> c \<noteq> 4 \<and> c \<noteq> 5 \<and> c \<noteq> 6) \<or>
     (c = 2 \<and> getNumericInput parse_double in0 = Some (a, in1) \<and>
        dless A (dsub A (balance (usr w)) a) (MINIMUM_BALANCE A)) \<or>
     (c = 3 \<and> getNumericInput parse_int in0 = Some (0, in1)) \<or>
     (c = 3 \<and> getNumericInput parse_int in0 = Some (t, in1) \<and> t \<noteq> 0 \<and>
        getNumericInput parse_double in1 = Some (a, in2) \<and>
        dless A (dsub A (balance (usr w)) a) (MINIMUM_BALANCE A)) \<or>
     (c = 3 \<and> getNumericInput parse_int in0 = Some (t, in1) \<and> t \<noteq> 0 \<and> t \<noteq> 1 \<and> t \<noteq> 2 \<and>
        getNumericInput parse_double in1 = Some (a, in2) \<and>
        \<not> dless A (dsub A (balance (usr w)) a) (MINIMUM_BALANCE A) \<and>
        getNumericInput parse_int in2 = Some (d, in3))"
  let ?v = "w\<lparr>stdin := in0\<rparr>"
  have sw: "\<exists>w' :: 'a world. menu_switch A c ?v = Some w' \<and> usr w' = usr w \<and> c \<noteq> 0"
    using cases
  proof (elim disjE conjE)
    assume "c = 4" then show ?thesis by (simp add: menu_switch_def)
  next
    assume "c = 5" then show ?thesis by (simp add: menu_switch_def)
  next
    assume "c = 6" then show ?thesis by (simp add: menu_switch_def)
  next
    assume "c \<noteq> 0" "c \<noteq> 1" "c \<noteq> 2" "c \<noteq> 3" "c \<noteq> 4" "c \<noteq> 5" "c \<noteq> 6"
    then show ?thesis by (simp add: menu_switch_def)
  next
    assume "c = 2" "getNumericInput parse_double in0 = Some (a, in1)"
      "dless A (dsub A (balance (usr w)) a) (MINIMUM_BALANCE A)"
    then show ?thesis
      using recordExpenditure_declined [where w = ?v and a = a and ?in1.0 = in1 and A = A] by (simp add: menu_switch_def)
  next
    assume "c = 3" "getNumericInput parse_int in0 = Some (0, in1)"
    then show ?thesis
      using makeInvestment_cancel [where w = ?v and ?in1.0 = in1 and A = A] by (simp add: menu_switch_def)
  next
    assume "c = 3" "getNumericInput parse_int in0 = Some (t, in1)" "t \<noteq> 0"
      "getNumericInput parse_double in1 = Some (a, in2)" "dless A (dsub A (balance (usr w)) a) (MINIMUM_BALANCE A)"
    then show ?thesis
      using makeInvestment_failed [where w = ?v and c = t and ?in1.0 = in1 and a = a and ?in2.0 = in2
          and A = A] by (simp add: menu_switch_def)
  next
    assume "c = 3" "getNumericInput parse_int in0 = Some (t, in1)" "t \<noteq> 0" "t \<noteq> 1" "t \<noteq> 2"
      "getNumericInput parse_double in1 = Some (a, in2)"
      "\<not> dless A (dsub A (balance (usr w)) a) (MINIMUM_BALANCE A)" "getNumericInput parse_int in2 = Some (d, in3)"
    then show ?thesis
      using makeInvestment_invalid_type [where w = ?v and c = t and ?in1.0 = in1 and a = a
          and ?in2.0 = in2 and d = d and ?in3.0 = in3 and A = A] by (simp add: menu_switch_def)
  qed
  then obtain w' :: "'a world" where w': "menu_switch A c ?v = Some w'" "usr w' = usr w" "c \<noteq> 0"
    by blast
  from run_nonzero [OF rd w'(3)] w'(1) have "run A w = run A w'"
    by simp
  with w' show "\<exists>w' :: 'a world. menu_switch A c (w\<lparr>stdin := in0\<rparr>) = Some w' \<and>
       usr w' = usr w \<and>
       balance (usr w') = balance (usr w) \<and>
       transactions (manager (usr w')) = transactions (manager (usr w)) \<and>
       investments (manager (usr w')) = investments (manager (usr w)) \<and>
       run A w = run A w'"
    by simp
qed

text \<open>
  A user with 5000 and one recorded gift, before a final 0. The transaction history
  (choice 4), an invalid option (9), an expenditure of 4500 (declined), an investment
  cancelled at the type prompt, an investment of 4500 (failed) and an investment of
  type 7 (invalid) all leave the user as it is and hand the rest of the input to the
  loop.
\<close>

theorem reports_and_rejections_frame_witness:
  "run exact
     \<lparr>usr = \<lparr>manager = \<lparr>transactions = [Income 100 ''Gift''], investments = []\<rparr>,
               balance = 5000\<rparr>,
       stdin = [number_line exact ''4'' 4, number_line exact ''0'' 0],
       stdout = []\<rparr> =
   run exact
     \<lparr>usr = \<lparr>manager = \<lparr>transactions = [Income 100 ''Gift''], investments = []\<rparr>,
               balance = 5000\<rparr>,
       stdin = [number_line exact ''0'' 0],
       stdout = [TransactionHistory [(''Income'', 100, ''Gift'')]]\<rparr> \<and>
   run exact
     \<lparr>usr = \<lparr>manager = \<lparr>transactions = [Income 100 ''Gift''], investments = []\<rparr>,
               balance = 5000\<rparr>,
       stdin = [number_line exact ''9'' 9, number_line exact ''0'' 0],
       stdout = []\<rparr> =
   run exact
     \<lparr>usr = \<lparr>manager = \<lparr>transactions = [Income 100 ''Gift''], investments = []\<rparr>,
               balance = 5000\<rparr>,
       stdin = [number_line exact ''0'' 0],
       stdout = [InvalidOption]\<rparr> \<and>
   run exact
     \<lparr>usr = \<lparr>manager = \<lparr>transactions = [Income 100 ''Gift''], investments = []\<rparr>,
               balance = 5000\<rparr>,
       stdin = [number_line exact ''2'' 2, number_line exact ''4500'' 4500, number_line exact ''0'' 0],
       stdout = []\<rparr> =
   run exact
     \<lparr>usr = \<lparr>manager = \<lparr>transactions = [Income 100 ''Gift''], investments = []\<rparr>,
               balance = 5000\<rparr>,
       stdin = [number_line exact ''0'' 0],
       stdout = [TransactionDeclined 1000]\<rparr> \<and>
   run exact
     \<lparr>usr = \<lparr>manager = \<lparr>transactions = [Income 100 ''Gift''], investments = []\<rparr>,
               balance = 5000\<rparr>,
       stdin = [number_line exact ''3'' 3, number_line exact ''0'' 0, number_line exact ''0'' 0],
       stdout = []\<rparr> =
   run exact
     \<lparr>usr = \<lparr>manager = \<lparr>transactions = [Income 100 ''Gift''], investments = []\<rparr>,
               balance = 5000\<rparr>,
       stdin = [number_line exact ''0'' 0],
       stdout = []\<rparr> \<and>
   run exact
     \<lparr>usr = \<lparr>manager = \<lparr>transactions = [Income 100 ''Gift''], investments = []\<rparr>,
               balance = 5000\<rparr>,
       stdin = [number_line exact ''3'' 3, number_line exact ''1'' 1, number_line exact ''4500'' 4500, number_line exact ''0'' 0],
       stdout = []\<rparr> =
   run exact
     \<lparr>usr = \<lparr>manager = \<lparr>transactions = [Income 100 ''Gift''], investments = []\<rparr>,
               balance = 5000\<rparr>,
       stdin = [number_line exact ''0'' 0],
       stdout = [InvestmentFailed 1000]\<rparr> \<and>
   run exact
     \<lparr>usr = \<lparr>manager = \<lparr>transactions = [Income 100 ''Gift''], investments = []\<rparr>,
               balance = 5000\<rparr>,
       stdin = [number_line exact ''3'' 3, number_line exact ''7'' 7, number_line exact ''100'' 100,
                number_line exact ''2'' 2, number_line exact ''0'' 0],
       stdout = []\<rparr> =
   run exact
     \<lparr>usr = \<lparr>manager = \<lparr>transactions = [Income 100 ''Gift''], investments = []\<rparr>,
               balance = 5000\<rparr>,
       stdin = [number_line exact ''0'' 0],
       stdout = [InvalidInvestmentType]\<rparr>"
proof -
  let ?u = "\<lparr>manager = \<lparr>transactions = [Income 100 ''Gift''], investments = []\<rparr>, balance = 5000\<rparr>"
  let ?zero = "number_line exact ''0'' 0"
  note frame = reports_and_rejections_frame [where A = exact]
  have 1: "run exact
      \<lparr>usr = ?u, stdin = [number_line exact ''4'' 4, ?zero],
        stdout = []\<rparr> =
   run exact
      \<lparr>usr = ?u, stdin = [?zero],
        stdout = [TransactionHistory [(''Income'', 100, ''Gift'')]]\<rparr>"
    using frame [of "\<lparr>usr = ?u, stdin = [number_line exact ''4'' 4, ?zero],
        stdout = []\<rparr>" 4 "[?zero]"]
    by (simp add: exact_def number_line_def menu_switch_def displayTransactionHistory_def display_def)
  have 2: "run exact
      \<lparr>usr = ?u, stdin = [number_line exact ''9'' 9, ?zero],
        stdout = []\<rparr> =
   run exact
      \<lparr>usr = ?u, stdin = [?zero],
        stdout = [InvalidOption]\<rparr>"
    using frame [of "\<lparr>usr = ?u, stdin = [number_line exact ''9'' 9, ?zero],
        stdout = []\<rparr>" 9 "[?zero]"]
    by (simp add: exact_def number_line_def menu_switch_def)
  have 3: "run exact
      \<lparr>usr = ?u, stdin = [number_line exact ''2'' 2, number_line exact ''4500'' 4500, ?zero],
        stdout = []\<rparr> =
   run exact
      \<lparr>usr = ?u, stdin = [?zero],
        stdout = [TransactionDeclined 1000]\<rparr>"
    using frame [of "\<lparr>usr = ?u, stdin = [number_line exact ''2'' 2, number_line exact ''4500'' 4500, ?zero],
        stdout = []\<rparr>" 2 "[number_line exact ''4500'' 4500, ?zero]" 4500 "[?zero]"]
    by (simp add: exact_def number_line_def menu_switch_def recordExpenditure_def MINIMUM_BALANCE_def)
  have 4: "run exact
      \<lparr>usr = ?u, stdin = [number_line exact ''3'' 3, ?zero, ?zero],
        stdout = []\<rparr> =
   run exact
      \<lparr>usr = ?u, stdin = [?zero],
        stdout = []\<rparr>"
    using frame [of "\<lparr>usr = ?u, stdin = [number_line exact ''3'' 3, ?zero, ?zero],
        stdout = []\<rparr>" 3 "[?zero, ?zero]" _ "[?zero]"]
    by (simp add: exact_def number_line_def menu_switch_def makeInvestment_def)
  have 5: "run exact
      \<lparr>usr = ?u, stdin = [number_line exact ''3'' 3, number_line exact ''1'' 1, number_line exact ''4500'' 4500, ?zero],
        stdout = []\<rparr> =
   run exact
      \<lparr>usr = ?u, stdin = [?zero],
        stdout = [InvestmentFailed 1000]\<rparr>"
    using frame
      [of "\<lparr>usr = ?u, stdin = [number_line exact ''3'' 3, number_line exact ''1'' 1, number_line exact ''4500'' 4500, ?zero],
        stdout = []\<rparr>" 3 "[number_line exact ''1'' 1, number_line exact ''4500'' 4500, ?zero]" 4500
        "[number_line exact ''4500'' 4500, ?zero]" 1 "[?zero]"]
    by (simp add: exact_def number_line_def menu_switch_def makeInvestment_def MINIMUM_BALANCE_def)
  have 6: "run exact
      \<lparr>usr = ?u, stdin = [number_line exact ''3'' 3, number_line exact ''7'' 7, number_line exact ''100'' 100,
                number_line exact ''2'' 2, ?zero],
        stdout = []\<rparr> =
   run exact
      \<lparr>usr = ?u, stdin = [?zero],
        stdout = [InvalidInvestmentType]\<rparr>"
    using frame
      [of "\<lparr>usr = ?u, stdin = [number_line exact ''3'' 3, number_line exact ''7'' 7, number_line exact ''100'' 100,
                number_line exact ''2'' 2, ?zero],
        stdout = []\<rparr>" 3 "[number_line exact ''7'' 7, number_line exact ''100'' 100, number_line exact ''2'' 2, ?zero]" 100
        "[number_line exact ''100'' 100, number_line exact ''2'' 2, ?zero]" 7 "[number_line exact ''2'' 2, ?zero]"
        2 "[?zero]"]
    by (simp add: exact_def number_line_def menu_switch_def makeInvestment_def MINIMUM_BALANCE_def)
  from 1 2 3 4 5 6 show ?thesis by simp
qed

text \<open>
  C9. The menu loop leaves only through the choice 0, in any arithmetic. If the choice
  read is 0, \<open>run\<close> returns at once, having written the goodbye line and changed nothing
  else. If the choice read is anything else, valid or not, \<open>run\<close> goes on with the state
  the \<open>switch\<close> leaves. If no line of the input reads as the integer 0, \<open>run\<close> never
  returns. \<open>run\<close> returns exactly when some pass of the loop reads 0, none before it
  having done so, and then with the state which that pass leaves: the state before it
  with the goodbye line written. \<open>main\<close> returns exactly when \<open>run\<close> on the fresh user with
  5000 does, that is exactly when some pass reads 0, and the code it then returns is 0;
  in particular it does so when the first number on the input is 0.
\<close>

theorem run_exits_on_zero_only:
  fixes A :: "'a arith" and w w' :: "'a world"
  shows
   "(getNumericInput parse_int (stdin w) = Some (0, in0) \<longrightarrow>
       run A w = Some \<lparr>usr = usr w, stdin = in0, stdout = stdout w @ [Goodbye]\<rparr>) \<and>
    (getNumericInput parse_int (stdin w) = Some (c, in0) \<and> c \<noteq> 0 \<longrightarrow>
       run A w =
         (case menu_switch A c (w\<lparr>stdin := in0\<rparr>) of None \<Rightarrow> None | Some w1 \<Rightarrow> run A w1)) \<and>
    (list_all (\<lambda>l. parse_int l \<noteq> Some 0) (stdin w) \<longrightarrow> run A w = None) \<and>
    (run A w = Some w') = (\<exists>n. passes A n w = Some (0, w')) \<and>
    (run A w = Some w' \<longrightarrow>
       (\<exists>(w0 :: 'a world) in1. getNumericInput parse_int (stdin w0) = Some (0, in1) \<and>
          w' = \<lparr>usr = usr w0, stdin = in1, stdout = stdout w0 @ [Goodbye]\<rparr>)) \<and>
    (main A input = Some (code, w')) =
       (code = 0 \<and>
        run A \<lparr>usr = User_init (dlit A 5000), stdin = input, stdout = [Welcome]\<rparr> = Some w') \<and>
    (main A input = Some (code, w')) =
       (code = 0 \<and>
        (\<exists>n. passes A n \<lparr>usr = User_init (dlit A 5000), stdin = input, stdout = [Welcome]\<rparr> =
               Some (0, w'))) \<and>
    (main A input = None) =
       (run A \<lparr>usr = User_init (dlit A 5000), stdin = input, stdout = [Welcome]\<rparr> = None) \<and>
    (getNumericInput parse_int input = Some (0, in0) \<longrightarrow>
       main A input =
         Some (0, \<lparr>usr = User_init (dlit A 5000), stdin = in0, stdout = [Welcome, Goodbye]\<rparr>))"
proof -
  let ?w0 = "\<lparr>usr = User_init (dlit A 5000), stdin = input, stdout = [Welcome]\<rparr>"
  have m: "(main A input = Some (code, w')) = (code = 0 \<and> run A ?w0 = Some w')"
    by (auto simp add: main_def split: option.splits)
  have n: "(main A input = None) = (run A ?w0 = None)"
    by (simp add: main_def split: option.splits)
  have z: "main A input = Some (0, \<lparr>usr = User_init (dlit A 5000), stdin = in0,
      stdout = [Welcome, Goodbye]\<rparr>)"
    if "getNumericInput parse_int input = Some (0, in0)"
    using run_zero [of ?w0 in0 A] that by (simp add: main_def)
  show ?thesis
    apply (intro conjI impI)
    subgoal by (simp add: run_zero)
    subgoal by (simp add: run_nonzero)
    subgoal by (simp add: run_def while_loop_without_zero)
    subgoal by (rule run_passes)
    subgoal by (rule while_loop_exit [of A "- 1" w w']) (simp_all add: run_def)
    subgoal by (rule m)
    subgoal using m run_passes [of A ?w0 w'] by simp
    subgoal by (rule n)
    subgoal by (rule z)
    done
qed

text \<open>
  With the input \<open>0\<close> the loop exits at once; with \<open>9\<close>, \<open>0\<close> it reports the invalid
  option, reads on and exits at the 0, which is its second pass; with \<open>4\<close>, \<open>5\<close> it prints
  two reports and then waits for ever, and so does \<open>main\<close>; \<open>main\<close> on the input \<open>0\<close>, and on
  the input \<open>9\<close>, \<open>0\<close>, returns 0.
\<close>

theorem run_exits_on_zero_only_witness:
  "run exact \<lparr>usr = User_init 5000, stdin = [number_line exact ''0'' 0], stdout = [Welcome]\<rparr> =
     Some \<lparr>usr = User_init 5000, stdin = [], stdout = [Welcome, Goodbye]\<rparr> \<and>
   run exact
     \<lparr>usr = User_init 5000, stdin = [number_line exact ''9'' 9, number_line exact ''0'' 0],
      stdout = []\<rparr> =
     Some \<lparr>usr = User_init 5000, stdin = [], stdout = [InvalidOption, Goodbye]\<rparr> \<and>
   passes exact 1
     \<lparr>usr = User_init 5000, stdin = [number_line exact ''9'' 9, number_line exact ''0'' 0],
      stdout = []\<rparr> =
     Some (0, \<lparr>usr = User_init 5000, stdin = [], stdout = [InvalidOption, Goodbye]\<rparr>) \<and>
   run exact
     \<lparr>usr = User_init 5000, stdin = [number_line exact ''4'' 4, number_line exact ''5'' 5],
      stdout = []\<rparr> =
     None \<and>
   main exact [number_line exact ''4'' 4, number_line exact ''5'' 5] = None \<and>
   main exact [number_line exact ''0'' 0] =
     Some (0, \<lparr>usr = User_init 5000, stdin = [], stdout = [Welcome, Goodbye]\<rparr>) \<and>
   main exact [number_line exact ''9'' 9, number_line exact ''0'' 0] =
     Some (0, \<lparr>usr = User_init 5000, stdin = [],
               stdout = [Welcome, InvalidOption, Goodbye]\<rparr>)"
proof -
  let ?zero = "number_line exact ''0'' 0"
  let ?nine = "number_line exact ''9'' 9"
  let ?u = "User_init 5000 :: real User"
  note law = run_exits_on_zero_only [where A = exact]
  have 1: "run exact \<lparr>usr = ?u, stdin = [?zero], stdout = [Welcome]\<rparr> =
     Some \<lparr>usr = ?u, stdin = [], stdout = [Welcome, Goodbye]\<rparr>"
    using law [where w = "\<lparr>usr = ?u, stdin = [?zero], stdout = [Welcome]\<rparr>" and ?in0.0 = "[]",
        THEN conjunct1]
    by (simp add: number_line_def)
  have 2: "run exact \<lparr>usr = ?u, stdin = [?nine, ?zero], stdout = []\<rparr> =
     Some \<lparr>usr = ?u, stdin = [], stdout = [InvalidOption, Goodbye]\<rparr>"
    using
      law [where w = "\<lparr>usr = ?u, stdin = [?nine, ?zero], stdout = []\<rparr>" and ?in0.0 = "[?zero]"
        and c = 9, THEN conjunct2, THEN conjunct1]
      law [where w = "\<lparr>usr = ?u, stdin = [?zero], stdout = [InvalidOption]\<rparr>" and ?in0.0 = "[]",
        THEN conjunct1]
    by (simp add: number_line_def menu_switch_def)
  have p: "passes exact 1 \<lparr>usr = ?u, stdin = [?nine, ?zero], stdout = []\<rparr> =
     Some (0, \<lparr>usr = ?u, stdin = [], stdout = [InvalidOption, Goodbye]\<rparr>)"
    by (simp add: pass_def number_line_def menu_switch_def)
  have 3: "run exact \<lparr>usr = ?u, stdin = [number_line exact ''4'' 4, number_line exact ''5'' 5],
      stdout = []\<rparr> = None"
    using law [where w = "\<lparr>usr = ?u,
        stdin = [number_line exact ''4'' 4, number_line exact ''5'' 5], stdout = []\<rparr>",
        THEN conjunct2, THEN conjunct2, THEN conjunct1]
    by (simp add: number_line_def)
  have 4: "main exact [number_line exact ''4'' 4, number_line exact ''5'' 5] = None"
    using
      law [where input = "[number_line exact ''4'' 4, number_line exact ''5'' 5]",
        THEN conjunct2, THEN conjunct2, THEN conjunct2, THEN conjunct2, THEN conjunct2,
        THEN conjunct2, THEN conjunct2, THEN conjunct1]
      law [where w = "\<lparr>usr = ?u,
        stdin = [number_line exact ''4'' 4, number_line exact ''5'' 5], stdout = [Welcome]\<rparr>",
        THEN conjunct2, THEN conjunct2, THEN conjunct1]
    by (simp add: number_line_def exact_def)
  have 5: "main exact [?zero] =
     Some (0, \<lparr>usr = ?u, stdin = [], stdout = [Welcome, Goodbye]\<rparr>)"
    using law [where input = "[?zero]" and ?in0.0 = "[]",
        THEN conjunct2, THEN conjunct2, THEN conjunct2, THEN conjunct2, THEN conjunct2,
        THEN conjunct2, THEN conjunct2, THEN conjunct2]
    by (simp add: number_line_def exact_def)
  have "passes exact 1 \<lparr>usr = ?u, stdin = [?nine, ?zero], stdout = [Welcome]\<rparr> =
     Some (0, \<lparr>usr = ?u, stdin = [], stdout = [Welcome, InvalidOption, Goodbye]\<rparr>)"
    by (simp add: pass_def number_line_def menu_switch_def)
  then have "\<exists>n. passes exact n
       \<lparr>usr = User_init (dlit exact 5000), stdin = [?nine, ?zero], stdout = [Welcome]\<rparr> =
     Some (0, \<lparr>usr = ?u, stdin = [], stdout = [Welcome, InvalidOption, Goodbye]\<rparr>)"
    unfolding exact_def by (intro exI [of _ 1]) simp
  then have 6: "main exact [?nine, ?zero] =
     Some (0, \<lparr>usr = ?u, stdin = [], stdout = [Welcome, InvalidOption, Goodbye]\<rparr>)"
    using law [where input = "[?nine, ?zero]" and code = 0
        and w' = "\<lparr>usr = ?u, stdin = [], stdout = [Welcome, InvalidOption, Goodbye]\<rparr>",
        THEN conjunct2, THEN conjunct2, THEN conjunct2, THEN conjunct2, THEN conjunct2,
        THEN conjunct2, THEN conjunct1]
    by simp
  from 1 2 p 3 4 5 6 show ?thesis by blast
qed

text \<open>
  C10, as the code has it. No operation checks the sign of an amount, in any arithmetic.
  A negative expenditure \<open>a\<close> that passes the guard is recorded as an \<open>Expenditure\<close> with
  that negative amount, and the balance becomes the difference \<open>balance - a\<close> as the
  arithmetic computes it. A negative principal does the same in \<open>makeInvestment\<close>, for a
  SIP and for a fixed deposit. A negative income is recorded with no check and the
  balance becomes the computed sum \<open>balance + a\<close>, whatever it is. On the machine a
  negative amount passes the guard from every balance that is at least 1000, and the new
  balance is \<open>balance + \<bar>a\<bar>\<close> rounded to the nearest double, which need not be above the
  old one; in exact arithmetic the balance rises by exactly \<open>\<bar>a\<bar>\<close>, and an income of
  \<open>a < 0\<close> lowers it by exactly \<open>\<bar>a\<bar>\<close>.
\<close>

theorem negative_amounts_accepted:
  fixes A :: "'a arith" and w :: "'a world"
  shows
   "(dless A a (dlit A 0) \<and>
     \<not> dless A (dsub A (balance (usr w)) a) (MINIMUM_BALANCE A) \<and>
     getNumericInput parse_double (stdin w) = Some (a, rest) \<longrightarrow>
       recordExpenditure A w =
         Some \<lparr>usr = \<lparr>manager = \<lparr>transactions = transactions (manager (usr w)) @
                                          [Expenditure a (fst (getStringInput rest))],
                                    investments = investments (manager (usr w))\<rparr>,
                       balance = dsub A (balance (usr w)) a\<rparr>,
               stdin = snd (getStringInput rest),
               stdout = stdout w @ [ExpenditureRecorded]\<rparr> \<and>
       dless A (getAmount (Expenditure a (fst (getStringInput rest)))) (dlit A 0)) \<and>
    (dless A a (dlit A 0) \<and>
     \<not> dless A (dsub A (balance (usr w)) a) (MINIMUM_BALANCE A) \<and>
     getNumericInput parse_int (stdin w) = Some (1, ra) \<and>
     getNumericInput parse_double ra = Some (a, rb) \<and>
     getNumericInput parse_int rb = Some (d, rc) \<and>
     getNumericInput parse_double rc = Some (mo, rd) \<longrightarrow>
       makeInvestment A w =
         Some \<lparr>usr = \<lparr>manager = \<lparr>transactions = transactions (manager (usr w)),
                                    investments = investments (manager (usr w)) @ [SIP a d mo]\<rparr>,
                       balance = dsub A (balance (usr w)) a\<rparr>,
               stdin = rd,
               stdout = stdout w @ [SIPMade]\<rparr>) \<and>
    (dless A a (dlit A 0) \<and>
     \<not> dless A (dsub A (balance (usr w)) a) (MINIMUM_BALANCE A) \<and>
     getNumericInput parse_int (stdin w) = Some (2, ra) \<and>
     getNumericInput parse_double ra = Some (a, rb) \<and>
     getNumericInput parse_int rb = Some (d, rc) \<longrightarrow>
       makeInvestment A w =
         Some \<lparr>usr = \<lparr>manager = \<lparr>transactions = transactions (manager (usr w)),
                                    investments = investments (manager (usr w)) @ [FD a d]\<rparr>,
                       balance = dsub A (balance (usr w)) a\<rparr>,
               stdin = rc,
               stdout = stdout w @ [FDMade]\<rparr>) \<and>
    (dless A a (dlit A 0) \<and> getNumericInput parse_double (stdin w) = Some (a, rest) \<longrightarrow>
       recordIncome A w =
         Some \<lparr>usr = \<lparr>manager = \<lparr>transactions = transactions (manager (usr w)) @
                                          [Income a (fst (getStringInput rest))],
                                    investments = investments (manager (usr w))\<rparr>,
                       balance = dadd A (balance (usr w)) a\<rparr>,
               stdin = snd (getStringInput rest),
               stdout = stdout w @ [IncomeRecorded]\<rparr>) \<and>
    (dless (binary64 libm_pow) u (dlit (binary64 libm_pow) 0) \<and>
     dleq (binary64 libm_pow) (MINIMUM_BALANCE (binary64 libm_pow)) b \<longrightarrow>
       \<not> dless (binary64 libm_pow) (dsub (binary64 libm_pow) b u)
           (MINIMUM_BALANCE (binary64 libm_pow))) \<and>
    (y < 0 \<longrightarrow>
       dsub (binary64 libm_pow) (Finite x) (Finite y) = round64 (x + \<bar>y\<bar>) \<and>
       dadd (binary64 libm_pow) (Finite x) (Finite y) = round64 (x - \<bar>y\<bar>)) \<and>
    (dless exact y (dlit exact 0) \<and> dleq exact (MINIMUM_BALANCE exact) x \<longrightarrow>
       \<not> dless exact (dsub exact x y) (MINIMUM_BALANCE exact)) \<and>
    (y < 0 \<longrightarrow>
       dsub exact x y = x + \<bar>y\<bar> \<and> x < dsub exact x y \<and>
       dadd exact x y = x - \<bar>y\<bar> \<and> dadd exact x y < x)"
  apply (intro conjI impI)
  subgoal by (simp add: recordExpenditure_recorded)
  subgoal by simp
  subgoal by (rule makeInvestment_SIP [where ?in1.0 = ra and ?in2.0 = rb and ?in3.0 = rc]) simp_all
  subgoal by (rule makeInvestment_FD [where ?in1.0 = ra and ?in2.0 = rb]) simp_all
  subgoal by (simp add: recordIncome_reads)
  subgoal
    using negative_passes_guard [of u b]
    by (simp add: MINIMUM_BALANCE_binary64) (simp add: binary64_eval)
  subgoal by (simp add: binary64_def fsub_def)
  subgoal by (simp add: binary64_def)
  subgoal by (simp add: MINIMUM_BALANCE_exact) (simp add: exact_def)
  subgoal by (simp add: exact_def)
  subgoal by (simp add: exact_def)
  subgoal by (simp add: exact_def)
  subgoal by (simp add: exact_def)
  done

text \<open>
  On the machine, from 5000: an expenditure of -200 is recorded and gives 5200; a SIP and
  a fixed deposit with principal -200 are made and give 5200; an income of -4500 is
  recorded and gives 500, below the minimum of 1000.
\<close>

theorem negative_amounts_accepted_witness:
  "recordExpenditure (binary64 pow)
     \<lparr>usr = \<lparr>manager = \<lparr>transactions = [], investments = []\<rparr>, balance = Finite 5000\<rparr>,
      stdin = [number_line (binary64 pow) ''-200'' (- 200), text_line ''Oops''],
      stdout = []\<rparr> =
   Some \<lparr>usr = \<lparr>manager = \<lparr>transactions = [Expenditure (Finite (- 200)) ''Oops''],
                             investments = []\<rparr>,
                 balance = Finite 5200\<rparr>,
         stdin = [], stdout = [ExpenditureRecorded]\<rparr> \<and>
   makeInvestment (binary64 pow)
     \<lparr>usr = \<lparr>manager = \<lparr>transactions = [], investments = []\<rparr>, balance = Finite 5000\<rparr>,
      stdin = [number_line (binary64 pow) ''1'' 1, number_line (binary64 pow) ''-200'' (- 200),
               number_line (binary64 pow) ''3'' 3, number_line (binary64 pow) ''50'' 50],
      stdout = []\<rparr> =
   Some \<lparr>usr = \<lparr>manager = \<lparr>transactions = [],
                             investments = [SIP (Finite (- 200)) 3 (Finite 50)]\<rparr>,
                 balance = Finite 5200\<rparr>,
         stdin = [], stdout = [SIPMade]\<rparr> \<and>
   makeInvestment (binary64 pow)
     \<lparr>usr = \<lparr>manager = \<lparr>transactions = [], investments = []\<rparr>, balance = Finite 5000\<rparr>,
      stdin = [number_line (binary64 pow) ''2'' 2, number_line (binary64 pow) ''-200'' (- 200),
               number_line (binary64 pow) ''3'' 3],
      stdout = []\<rparr> =
   Some \<lparr>usr = \<lparr>manager = \<lparr>transactions = [], investments = [FD (Finite (- 200)) 3]\<rparr>,
                 balance = Finite 5200\<rparr>,
         stdin = [], stdout = [FDMade]\<rparr> \<and>
   recordIncome (binary64 pow)
     \<lparr>usr = \<lparr>manager = \<lparr>transactions = [], investments = []\<rparr>, balance = Finite 5000\<rparr>,
      stdin = [number_line (binary64 pow) ''-4500'' (- 4500), text_line ''Refund''],
      stdout = []\<rparr> =
   Some \<lparr>usr = \<lparr>manager = \<lparr>transactions = [Income (Finite (- 4500)) ''Refund''],
                             investments = []\<rparr>,
                 balance = Finite 500\<rparr>,
         stdin = [], stdout = [IncomeRecorded]\<rparr> \<and>
   dless (binary64 pow) (Finite 500) (MINIMUM_BALANCE (binary64 pow)) \<and>
   dless (binary64 pow) (Finite (- 200)) (dlit (binary64 pow) 0) \<and>
   dleq (binary64 pow) (MINIMUM_BALANCE (binary64 pow)) (Finite 5000) \<and>
   \<not> dless (binary64 pow) (dsub (binary64 pow) (Finite 5000) (Finite (- 200)))
       (MINIMUM_BALANCE (binary64 pow)) \<and>
   dsub (binary64 pow) (Finite 5000) (Finite (- 200)) = round64 (5000 + \<bar>- 200\<bar>) \<and>
   dadd (binary64 pow) (Finite 5000) (Finite (- 4500)) = round64 (5000 - \<bar>- 4500\<bar>) \<and>
   \<not> dless exact (dsub exact 5000 (- 200)) (MINIMUM_BALANCE exact) \<and>
   dsub exact 5000 (- 200) = 5200 \<and>
   dadd exact 5000 (- 4500) = 500"
proof -
  let ?A = "binary64 pow"
  let ?n = "number_line ?A"
  let ?u = "\<lparr>manager = \<lparr>transactions = [], investments = []\<rparr>, balance = Finite 5000\<rparr>
              :: double User"
  have 1: "recordExpenditure ?A
     \<lparr>usr = ?u, stdin = [?n ''-200'' (- 200), text_line ''Oops''], stdout = []\<rparr> =
   Some \<lparr>usr = \<lparr>manager = \<lparr>transactions = [Expenditure (Finite (- 200)) ''Oops''],
                             investments = []\<rparr>,
                 balance = Finite 5200\<rparr>,
         stdin = [], stdout = [ExpenditureRecorded]\<rparr>"
    using negative_amounts_accepted [where A = ?A and
        w = "\<lparr>usr = ?u, stdin = [?n ''-200'' (- 200), text_line ''Oops''], stdout = []\<rparr>"
        and a = "Finite (- 200)" and rest = "[text_line ''Oops'']", THEN conjunct1]
    by (simp add: number_line_def text_line_def MINIMUM_BALANCE_def binary64_eval)
  have 2: "makeInvestment ?A
     \<lparr>usr = ?u, stdin = [?n ''1'' 1, ?n ''-200'' (- 200), ?n ''3'' 3, ?n ''50'' 50],
      stdout = []\<rparr> =
   Some \<lparr>usr = \<lparr>manager = \<lparr>transactions = [],
                             investments = [SIP (Finite (- 200)) 3 (Finite 50)]\<rparr>,
                 balance = Finite 5200\<rparr>,
         stdin = [], stdout = [SIPMade]\<rparr>"
    using negative_amounts_accepted [where A = ?A and
        w = "\<lparr>usr = ?u, stdin = [?n ''1'' 1, ?n ''-200'' (- 200), ?n ''3'' 3, ?n ''50'' 50],
               stdout = []\<rparr>"
        and a = "Finite (- 200)" and ra = "[?n ''-200'' (- 200), ?n ''3'' 3, ?n ''50'' 50]"
        and rb = "[?n ''3'' 3, ?n ''50'' 50]" and d = 3 and rc = "[?n ''50'' 50]"
        and mo = "Finite 50" and rd = "[]",
        THEN conjunct2, THEN conjunct1]
    by (simp add: number_line_def MINIMUM_BALANCE_def binary64_eval)
  have 3: "makeInvestment ?A
     \<lparr>usr = ?u, stdin = [?n ''2'' 2, ?n ''-200'' (- 200), ?n ''3'' 3], stdout = []\<rparr> =
   Some \<lparr>usr = \<lparr>manager = \<lparr>transactions = [], investments = [FD (Finite (- 200)) 3]\<rparr>,
                 balance = Finite 5200\<rparr>,
         stdin = [], stdout = [FDMade]\<rparr>"
    using negative_amounts_accepted [where A = ?A and
        w = "\<lparr>usr = ?u, stdin = [?n ''2'' 2, ?n ''-200'' (- 200), ?n ''3'' 3], stdout = []\<rparr>"
        and a = "Finite (- 200)" and ra = "[?n ''-200'' (- 200), ?n ''3'' 3]"
        and rb = "[?n ''3'' 3]" and d = 3 and rc = "[]",
        THEN conjunct2, THEN conjunct2, THEN conjunct1]
    by (simp add: number_line_def MINIMUM_BALANCE_def binary64_eval)
  have 4: "recordIncome ?A
     \<lparr>usr = ?u, stdin = [?n ''-4500'' (- 4500), text_line ''Refund''], stdout = []\<rparr> =
   Some \<lparr>usr = \<lparr>manager = \<lparr>transactions = [Income (Finite (- 4500)) ''Refund''],
                             investments = []\<rparr>,
                 balance = Finite 500\<rparr>,
         stdin = [], stdout = [IncomeRecorded]\<rparr>"
    using negative_amounts_accepted [where A = ?A and
        w = "\<lparr>usr = ?u, stdin = [?n ''-4500'' (- 4500), text_line ''Refund''], stdout = []\<rparr>"
        and a = "Finite (- 4500)" and rest = "[text_line ''Refund'']",
        THEN conjunct2, THEN conjunct2, THEN conjunct2, THEN conjunct1]
    by (simp add: number_line_def text_line_def binary64_eval)
  have 5: "dless ?A (Finite 500) (MINIMUM_BALANCE ?A)"
    by (simp add: MINIMUM_BALANCE_def binary64_eval)
  have 6: "dless ?A (Finite (- 200)) (dlit ?A 0) \<and>
      dleq ?A (MINIMUM_BALANCE ?A) (Finite 5000) \<and>
      \<not> dless ?A (dsub ?A (Finite 5000) (Finite (- 200))) (MINIMUM_BALANCE ?A)"
    using negative_amounts_accepted [where A = ?A and libm_pow = pow
        and u = "Finite (- 200)" and b = "Finite 5000",
        THEN conjunct2, THEN conjunct2, THEN conjunct2, THEN conjunct2, THEN conjunct1]
    by (simp add: MINIMUM_BALANCE_def binary64_eval)
  have 7: "dsub ?A (Finite 5000) (Finite (- 200)) = round64 (5000 + \<bar>- 200\<bar>) \<and>
      dadd ?A (Finite 5000) (Finite (- 4500)) = round64 (5000 - \<bar>- 4500\<bar>)"
    using
      negative_amounts_accepted [where A = ?A and libm_pow = pow and x = 5000 and y = "- 200",
        THEN conjunct2, THEN conjunct2, THEN conjunct2, THEN conjunct2, THEN conjunct2,
        THEN conjunct1]
      negative_amounts_accepted [where A = ?A and libm_pow = pow and x = 5000 and y = "- 4500",
        THEN conjunct2, THEN conjunct2, THEN conjunct2, THEN conjunct2, THEN conjunct2,
        THEN conjunct1]
    by simp
  have 8: "\<not> dless exact (dsub exact 5000 (- 200)) (MINIMUM_BALANCE exact) \<and>
      dsub exact 5000 (- 200) = 5200 \<and> dadd exact 5000 (- 4500) = 500"
    using
      negative_amounts_accepted [where A = ?A and x = 5000 and y = "- 200",
        THEN conjunct2, THEN conjunct2, THEN conjunct2, THEN conjunct2, THEN conjunct2,
        THEN conjunct2]
      negative_amounts_accepted [where A = ?A and x = 5000 and y = "- 4500",
        THEN conjunct2, THEN conjunct2, THEN conjunct2, THEN conjunct2, THEN conjunct2,
        THEN conjunct2]
    by (simp add: MINIMUM_BALANCE_def exact_def)
  from 1 2 3 4 5 6 7 8 show ?thesis by blast
qed

text \<open>
  C10 as the claim words it fails on the machine. From 5000, an expenditure of \<open>-2^-43\<close>
  (typed as -1.1368683772161603e-13) is accepted and recorded with its negative amount,
  and the balance stays 5000: it does not increase. An income of \<open>-2^-43\<close> is recorded and
  the balance stays 5000: it does not decrease.
\<close>

theorem negative_amount_rounded:
  "recordExpenditure (binary64 pow)
     \<lparr>usr = \<lparr>manager = \<lparr>transactions = [], investments = []\<rparr>, balance = Finite 5000\<rparr>,
      stdin = [decimal_line (binary64 pow) ''-1.1368683772161603e-13'' (- 1)
                 (- 11368683772161603 / 10 ^ 29),
               text_line ''Oops''],
      stdout = []\<rparr> =
   Some \<lparr>usr = \<lparr>manager = \<lparr>transactions = [Expenditure (Finite (- 1 / 2 ^ 43)) ''Oops''],
                             investments = []\<rparr>,
                 balance = Finite 5000\<rparr>,
         stdin = [], stdout = [ExpenditureRecorded]\<rparr> \<and>
   (5000 :: real) + \<bar>- 1 / 2 ^ 43\<bar> \<noteq> 5000 \<and>
   recordIncome (binary64 pow)
     \<lparr>usr = \<lparr>manager = \<lparr>transactions = [], investments = []\<rparr>, balance = Finite 5000\<rparr>,
      stdin = [decimal_line (binary64 pow) ''-1.1368683772161603e-13'' (- 1)
                 (- 11368683772161603 / 10 ^ 29),
               text_line ''Oops''],
      stdout = []\<rparr> =
   Some \<lparr>usr = \<lparr>manager = \<lparr>transactions = [Income (Finite (- 1 / 2 ^ 43)) ''Oops''],
                             investments = []\<rparr>,
                 balance = Finite 5000\<rparr>,
         stdin = [], stdout = [IncomeRecorded]\<rparr>"
  by (simp add: recordExpenditure_def recordIncome_def addTransaction_def decimal_line_def
      text_line_def MINIMUM_BALANCE_def binary64_eval)

end
